theory Spec2Isabelle
  imports Complex_Main
begin

section \<open>Shared data model\<close>

text \<open>
  Go strings are byte sequences and so are HOL strings. An instant of \<open>time.Time\<close> is
  the number of nanoseconds since the Unix epoch; a \<open>time.Duration\<close> is an int64 count
  of nanoseconds.
\<close>

type_synonym time = int
type_synonym duration = int

text \<open>
  Every error value the two controllers build or pass on. The first four are the
  object-store errors as \<open>apierrors\<close> classifies them, \<open>AcmeError\<close> is \<open>*acme.Error\<close>
  with its \<open>StatusCode\<close>, \<open>OtherError\<close> is any other error of a collaborator, and the
  rest are the \<open>fmt.Errorf\<close> values of the sources, one constructor per call site.
\<close>

datatype error =
    ApiAlreadyExists
  | ApiConflict
  | ApiNotFound
  | ApiOther string
  | AcmeError int
  | OtherError string
  | CantDecodeCertificate
  | CertHostnameMismatch
  | CantDecodeStatus
  | CantEncodeStatus
  | CantSetStatus error
  | CantUpdateStatus error
  | FailedGetClient error
  | InvalidAuthzStatus string
  | NoViableChallenge
  | InvalidChallengeStatus string
  | InvalidOrderStatus string
  | ExposerRouteCollision
  | ExposerReplicaSetCollision
  | ExposerServiceCollision
  | FailedGenerateKey error
  | FailedCreateCSR error
  | CantConvertCertificate error
  | CantUpdateRoute error
  | CantGetStatus error
  | UnexpectedKeyFormat
  | MissingIssuerData
  | InvalidIssuerData

record OwnerReference =
  ref_APIVersion :: string
  ref_Kind :: string
  ref_Name :: string
  ref_UID :: string
  ref_Controller :: "bool option"

text \<open>
  \<open>metav1.ObjectMeta\<close>, the fields the controllers read or write. A Go map is an
  association list with one entry per key, and \<open>None\<close> is the nil map.
\<close>

record ObjectMeta =
  Name :: string
  Namespace :: string
  UID :: string
  ResourceVersion :: string
  Generation :: int
  DeletionTimestamp :: "time option"
  Labels :: "(string \<times> string) list option"
  Annotations :: "(string \<times> string) list option"
  OwnerReferences :: "OwnerReference list"

record TLSConfig =
  Termination :: string
  Certificate :: string
  Key :: string
  InsecureEdgeTerminationPolicy :: string

record RouteTargetReference =
  to_Kind :: string
  to_Name :: string

record RouteSpec =
  Host :: string
  Path :: string
  To :: RouteTargetReference
  TLS :: "TLSConfig option"

text \<open>Go embeds \<open>ObjectMeta\<close> in every object; so do the records.\<close>

record Route = ObjectMeta +
  Spec :: RouteSpec

text \<open>Reading a Go map: a missing key, and any key of the nil map, reads as the zero value.\<close>

fun map_index :: "(string \<times> string) list \<Rightarrow> string \<Rightarrow> string" where
  "map_index [] k = []"
| "map_index ((k', v) # m) k = (if k' = k then v else map_index m k)"

text \<open>Writing a Go map: \<open>m[k] = v\<close>.\<close>

fun map_assign :: "(string \<times> string) list \<Rightarrow> string \<Rightarrow> string \<Rightarrow> (string \<times> string) list" where
  "map_assign [] k v = [(k, v)]"
| "map_assign ((k', v') # m) k v = (if k' = k then (k, v) # m else (k', v') # map_assign m k v)"

section \<open>Renewal policy (route.go, needsCertKey)\<close>

definition maxDuration :: duration where
  "maxDuration = 2 ^ 63 - 1"

definition minDuration :: duration where
  "minDuration = - (2 ^ 63)"

text \<open>\<open>Time.Sub\<close>: the difference of two instants, saturated to the range of int64.\<close>

definition Sub :: "time \<Rightarrow> time \<Rightarrow> duration" where
  "Sub t u = (if t - u > maxDuration then maxDuration
              else if t - u < minDuration then minDuration
              else t - u)"

text \<open>Go's integer division truncates toward zero.\<close>

definition quo :: "int \<Rightarrow> int \<Rightarrow> int" where
  "quo a b = sgn a * sgn b * (\<bar>a\<bar> div \<bar>b\<bar>)"

record x509_Certificate =
  NotBefore :: time
  NotAfter :: time

text \<open>
  The collaborators of the renewal policy that are not part of these sources:
  \<open>CertPemData.Certificate\<close> and \<open>cert.IsValid\<close> of package \<open>cert\<close>,
  \<open>Certificate.VerifyHostname\<close> of \<open>crypto/x509\<close> (\<open>True\<close> is the nil error) and the
  first \<open>NormFloat64\<close> of a \<open>math/rand\<close> generator seeded with \<open>t.UnixNano()\<close>.
\<close>

record cert_lib =
  CertPemData_Certificate :: "string \<Rightarrow> string \<Rightarrow> x509_Certificate option"
  VerifyHostname :: "x509_Certificate \<Rightarrow> string \<Rightarrow> bool"
  IsValid :: "x509_Certificate \<Rightarrow> time \<Rightarrow> bool"
  NormFloat64 :: "time \<Rightarrow> real"

definition RenewalStandardDeviation :: real where
  "RenewalStandardDeviation = 1"

definition RenewalMean :: real where
  "RenewalMean = 0"

definition needsCertKey :: "cert_lib \<Rightarrow> time \<Rightarrow> Route \<Rightarrow> error + string" where
  "needsCertKey L t route =
     (case TLS (Spec route) of
        None \<Rightarrow> Inr ''Route is missing CertKey''
      | Some tls \<Rightarrow>
          if Key tls = [] \<or> Certificate tls = [] then Inr ''Route is missing CertKey''
          else (case CertPemData_Certificate L (Key tls) (Certificate tls) of
             None \<Rightarrow> Inl CantDecodeCertificate
           | Some certificate \<Rightarrow>
               if \<not> VerifyHostname L certificate (Host (Spec route)) then Inl CertHostnameMismatch
               else if \<not> IsValid L certificate t then Inr ''Already expired''
               else
                 let remains = Sub (NotAfter certificate) t;
                     lifetime = Sub (NotAfter certificate) (NotBefore certificate)
                 in if remains \<le> quo lifetime 3 then Inr ''In renewal period''
                    else if remains \<le> quo lifetime 2
                            \<and> NormFloat64 L t * RenewalStandardDeviation + RenewalMean < 0
                         then Inr ''Proactive renewal''
                    else Inr []))"

section \<open>Status codec (route.go, getStatus and setStatus)\<close>

text \<open>
  Modelled from the spec: \<open>api.Status\<close> and \<open>api.AcmeStatusAnnotation\<close> of package
  \<open>api\<close>, which is not part of these sources. The provisioning status is the nullable
  record of order URI, start time and order status; the observed generation is the field
  that \<open>setStatus\<close> writes on the status itself.
\<close>

record ProvisioningStatus_t =
  StartedAt :: time
  OrderUri :: string
  OrderStatus :: string

record Status =
  ObservedGeneration :: int
  ProvisioningStatus :: "ProvisioningStatus_t option"

definition zero_Status :: Status where
  "zero_Status = \<lparr>ObservedGeneration = 0, ProvisioningStatus = None\<rparr>"

text \<open>
  \<open>encoding/json\<close> on \<open>api.Status\<close>: \<open>Unmarshal\<close> into a zero status gives the decoded
  status or fails; \<open>Marshal\<close> gives the bytes or fails.
\<close>

record json_lib =
  Marshal :: "Status \<Rightarrow> string option"
  Unmarshal :: "string \<Rightarrow> Status option"

definition getStatus :: "json_lib \<Rightarrow> string \<Rightarrow> Route \<Rightarrow> error + Status" where
  "getStatus J AcmeStatusAnnotation routeReadOnly =
     (case Annotations routeReadOnly of
        None \<Rightarrow> Inr zero_Status
      | Some annotations \<Rightarrow>
          (case Unmarshal J (map_index annotations AcmeStatusAnnotation) of
             None \<Rightarrow> Inl CantDecodeStatus
           | Some status \<Rightarrow> Inr status))"

text \<open>\<open>metav1.SetMetaDataAnnotation\<close>: allocate the map when it is nil, then assign.\<close>

definition SetMetaDataAnnotation ::
  "'a ObjectMeta_scheme \<Rightarrow> string \<Rightarrow> string \<Rightarrow> 'a ObjectMeta_scheme" where
  "SetMetaDataAnnotation obj ann v =
     obj\<lparr>Annotations :=
       Some (map_assign (case Annotations obj of None \<Rightarrow> [] | Some a \<Rightarrow> a) ann v)\<rparr>"

text \<open>
  \<open>setStatus\<close> writes through both of its pointers: the result is the route and the
  status as they are after the call.
\<close>

definition setStatus :: "json_lib \<Rightarrow> string \<Rightarrow> Route \<Rightarrow> Status \<Rightarrow> error + (Route \<times> Status)" where
  "setStatus J AcmeStatusAnnotation route status =
     (let status' = status\<lparr>ObservedGeneration := Generation route\<rparr>
      in case Marshal J status' of
           None \<Rightarrow> Inl CantEncodeStatus
         | Some bytes \<Rightarrow>
             Inr (SetMetaDataAnnotation route AcmeStatusAnnotation bytes, status'))"

section \<open>Collaborators of the endpoint reconciler\<close>

text \<open>The ACME objects of \<open>golang.org/x/crypto/acme\<close>, the fields the handler reads.\<close>

record Challenge =
  chal_Type :: string
  chal_URI :: string
  chal_Token :: string
  chal_Status :: string

record Authorization =
  authz_URI :: string
  authz_Status :: string
  Challenges :: "Challenge list"

record Order =
  order_URI :: string
  order_Status :: string
  AuthzURLs :: "string list"
  FinalizeURL :: string

definition StatusPending :: string where "StatusPending = ''pending''"
definition StatusProcessing :: string where "StatusProcessing = ''processing''"
definition StatusValid :: string where "StatusValid = ''valid''"
definition StatusInvalid :: string where "StatusInvalid = ''invalid''"
definition StatusReady :: string where "StatusReady = ''ready''"
definition StatusDeactivated :: string where "StatusDeactivated = ''deactivated''"
definition StatusExpired :: string where "StatusExpired = ''expired''"
definition StatusRevoked :: string where "StatusRevoked = ''revoked''"

definition StatusNotFound :: int where "StatusNotFound = 404"

text \<open>The type assertion \<open>err.(*acme.Error)\<close>: the status code when it holds.\<close>

fun as_acme_Error :: "error \<Rightarrow> int option" where
  "as_acme_Error (AcmeError code) = Some code"
| "as_acme_Error _ = None"

definition IsAlreadyExists :: "error \<Rightarrow> bool" where
  "IsAlreadyExists err = (err = ApiAlreadyExists)"

definition IsConflict :: "error \<Rightarrow> bool" where
  "IsConflict err = (err = ApiConflict)"

record ReplicaSetSpec =
  Replicas :: int
  Selector :: "(string \<times> string) list"
  Template_Labels :: "(string \<times> string) list"

record ReplicaSet = ObjectMeta +
  rs_Spec :: ReplicaSetSpec

record ServiceSpec =
  svc_Selector :: "(string \<times> string) list"
  svc_Type :: string

record Service = ObjectMeta +
  svc_Spec :: ServiceSpec

text \<open>
  \<open>metav1.GetControllerOf\<close> and \<open>metav1.IsControlledBy\<close>: the controller of an object is
  its first owner reference whose \<open>Controller\<close> is set and true.
\<close>

fun GetControllerOf_refs :: "OwnerReference list \<Rightarrow> OwnerReference option" where
  "GetControllerOf_refs [] = None"
| "GetControllerOf_refs (ref # refs) =
     (if ref_Controller ref = Some True then Some ref else GetControllerOf_refs refs)"

definition GetControllerOf :: "'a ObjectMeta_scheme \<Rightarrow> OwnerReference option" where
  "GetControllerOf controllee = GetControllerOf_refs (OwnerReferences controllee)"

definition IsControlledBy :: "'a ObjectMeta_scheme \<Rightarrow> 'b ObjectMeta_scheme \<Rightarrow> bool" where
  "IsControlledBy obj owner =
     (case GetControllerOf obj of None \<Rightarrow> False | Some ref \<Rightarrow> ref_UID ref = UID owner)"

text \<open>
  Modelled from the spec: the issuer configuration of package \<open>api\<close>, which is not part
  of these sources. The account status holds the CA-assigned URI, the orders URL, the
  account status string and the hash of the contacts; the issuer is held by reference,
  so what \<open>sync\<close> writes through \<open>acmeIssuer\<close> is what it marshals.
\<close>

record AcmeAccountStatus =
  status_Hash :: string
  status_URI :: string
  status_OrdersURL :: string
  status_AccountStatus :: string

record AcmeAccount =
  Contacts :: "string list"
  Account_Status :: AcmeAccountStatus

record AcmeCertIssuer_t =
  DirectoryUrl :: string
  Account :: AcmeAccount
  AccountCredentialsSecretName :: string

record CertIssuer =
  issuer_Type :: string
  AcmeCertIssuer :: AcmeCertIssuer_t

text \<open>\<open>acme.Account\<close> and \<open>acme.Client\<close>, the fields \<open>sync\<close> reads or writes.\<close>

record acme_Account =
  acct_URI :: string
  Contact :: "string list"
  acct_Status :: string
  OrdersURL :: string

record acme_Client =
  DirectoryURL :: string
  UserAgent :: string
  client_Key :: string

record ConfigMap = ObjectMeta +
  Data :: "(string \<times> string) list option"

record Secret = ObjectMeta +
  secret_Type :: string
  secret_Data :: "(string \<times> string) list"

text \<open>
  Every call a handler makes on a collaborator that has an effect, in the order it is
  made: this is the trace of one invocation.
\<close>

datatype call =
    Call_AuthorizeOrder string
  | Call_GetOrder string
  | Call_GetAuthorization string
  | Call_Accept Challenge
  | Call_CreateOrderCert string
  | Call_Routes_Create Route
  | Call_Routes_Get string
  | Call_Routes_Update Route
  | Call_ReplicaSets_Create ReplicaSet
  | Call_ReplicaSets_Get string
  | Call_ReplicaSets_Update ReplicaSet
  | Call_Services_Create Service
  | Call_Services_Get string
  | Call_Services_Update Service
  | Call_queue_AddAfter string
  | Call_recorder_Eventf string
  | Call_Register acme_Client acme_Account
  | Call_UpdateReg acme_Client acme_Account
  | Call_GetReg acme_Client string
  | Call_Secrets_Create Secret
  | Call_ConfigMaps_Update ConfigMap

text \<open>
  How one invocation of a handler ends: it returns nil or an error, or it panics
  (a nil pointer is dereferenced).
\<close>

datatype outcome = Returned "error option" | Panicked

text \<open>
  The collaborators, over the state \<open>'w\<close> of the world outside the handler (CA, object
  store, clock, entropy). A call with an effect takes the world and gives it back.
  The informer cache, the client factory and \<open>routeutil.IsAdmitted\<close> are consulted once
  per invocation and are read-only. \<open>Sum512\<close> is \<open>sha512.Sum512\<close>, its 64 bytes as a
  string.
\<close>

record 'w collaborators =
  GetByKey :: "string \<Rightarrow> error + Route option"
  IsAdmitted :: "Route \<Rightarrow> bool"
  GetClient :: "error option"
  Now :: "'w \<Rightarrow> time \<times> 'w"
  AuthorizeOrder :: "string \<Rightarrow> 'w \<Rightarrow> (error + Order) \<times> 'w"
  GetOrder :: "string \<Rightarrow> 'w \<Rightarrow> (error + Order) \<times> 'w"
  GetAuthorization :: "string \<Rightarrow> 'w \<Rightarrow> (error + Authorization) \<times> 'w"
  Accept :: "Challenge \<Rightarrow> 'w \<Rightarrow> error option \<times> 'w"
  HTTP01ChallengePath :: "string \<Rightarrow> string"
  CreateOrderCert :: "string \<Rightarrow> string \<Rightarrow> 'w \<Rightarrow> (error + string \<times> string) \<times> 'w"
  Routes_Create :: "Route \<Rightarrow> 'w \<Rightarrow> (error + Route) \<times> 'w"
  Routes_Get :: "string \<Rightarrow> 'w \<Rightarrow> (error + Route) \<times> 'w"
  Routes_Update :: "Route \<Rightarrow> 'w \<Rightarrow> (error + Route) \<times> 'w"
  ReplicaSets_Create :: "ReplicaSet \<Rightarrow> 'w \<Rightarrow> (error + ReplicaSet) \<times> 'w"
  ReplicaSets_Get :: "string \<Rightarrow> 'w \<Rightarrow> (error + ReplicaSet) \<times> 'w"
  ReplicaSets_Update :: "ReplicaSet \<Rightarrow> 'w \<Rightarrow> (error + ReplicaSet) \<times> 'w"
  Services_Create :: "Service \<Rightarrow> 'w \<Rightarrow> (error + Service) \<times> 'w"
  Services_Get :: "string \<Rightarrow> 'w \<Rightarrow> (error + Service) \<times> 'w"
  Services_Update :: "Service \<Rightarrow> 'w \<Rightarrow> (error + Service) \<times> 'w"
  rsa_GenerateKey :: "'w \<Rightarrow> (error + string) \<times> 'w"
  CreateCertificateRequest :: "string \<Rightarrow> string \<Rightarrow> 'w \<Rightarrow> (error + string) \<times> 'w"
  NewCertificateFromDER :: "string \<Rightarrow> string \<Rightarrow> error + (string \<times> string)"
  Sum512 :: "string \<Rightarrow> string"

text \<open>
  The controller itself: its order timeout, the two libraries of the sections above and
  the two names of package \<open>api\<close> that the handler uses.
\<close>

record RouteController =
  orderTimeout :: duration
  json :: json_lib
  certs :: cert_lib
  AcmeStatusAnnotation :: string
  AcmeTemporaryLabel :: string

type_synonym ('w, 'a) io = "'w \<times> call list \<Rightarrow> 'a \<times> 'w \<times> call list"

definition ret :: "'a \<Rightarrow> ('w, 'a) io" where
  "ret x s = (x, s)"

definition bnd :: "('w, 'a) io \<Rightarrow> ('a \<Rightarrow> ('w, 'b) io) \<Rightarrow> ('w, 'b) io" where
  "bnd m f s = (case m s of (a, s') \<Rightarrow> f a s')"

text \<open>Make a call: run it on the world and append it to the trace.\<close>

definition perform :: "call \<Rightarrow> ('w \<Rightarrow> 'a \<times> 'w) \<Rightarrow> ('w, 'a) io" where
  "perform c f s = (case s of (w, tr) \<Rightarrow> (case f w of (a, w') \<Rightarrow> (a, w', tr @ [c])))"


section \<open>Endpoint reconciler (route.go)\<close>

definition updateStatus ::
  "'w collaborators \<Rightarrow> RouteController \<Rightarrow> Route \<Rightarrow> Status \<Rightarrow> ('w, outcome) io" where
  "updateStatus A rc route status =
     (case setStatus (json rc) (AcmeStatusAnnotation rc) route status of
        Inl err \<Rightarrow> ret (Returned (Some (CantSetStatus err)))
      | Inr (route', status') \<Rightarrow>
          if route' = route then ret (Returned None)
          else bnd (perform (Call_Routes_Update route') (Routes_Update A route'))
            (\<lambda>r. case r of
               Inl err \<Rightarrow> ret (Returned (Some (CantUpdateStatus err)))
             | Inr _ \<Rightarrow> ret (Returned None)))"

definition getTemporaryName :: "'w collaborators \<Rightarrow> string \<Rightarrow> string" where
  "getTemporaryName A key = ''acme-exposer-'' @ Sum512 A key"

text \<open>
  \<open>retry.RetryOnConflict(retry.DefaultBackoff, fn)\<close>: \<open>fn\<close> runs until it succeeds or
  fails with an error that is not a conflict, four times at most (the \<open>Steps\<close> of
  \<open>DefaultBackoff\<close>); after the fourth conflict the last conflict is the result.
  \<open>retry_again n last fn\<close> is the loop after a conflict, with \<open>n\<close> runs left.
\<close>

fun retry_again :: "nat \<Rightarrow> error \<Rightarrow> ('w, error + 'a) io \<Rightarrow> ('w, error + 'a) io" where
  "retry_again 0 lastConflictErr fn = ret (Inl lastConflictErr)"
| "retry_again (Suc n) lastConflictErr fn =
     bnd fn (\<lambda>r. case r of
        Inr x \<Rightarrow> ret (Inr x)
      | Inl err \<Rightarrow> if IsConflict err then retry_again n err fn else ret (Inl err))"

definition RetryOnConflict :: "('w, error + 'a) io \<Rightarrow> ('w, error + 'a) io" where
  "RetryOnConflict fn =
     bnd fn (\<lambda>r. case r of
        Inr x \<Rightarrow> ret (Inr x)
      | Inl err \<Rightarrow> if IsConflict err then retry_again 3 err fn else ret (Inl err))"


text \<open>An effect on the world that the trace does not record (clock, entropy).\<close>

definition step :: "('w \<Rightarrow> 'a \<times> 'w) \<Rightarrow> ('w, 'a) io" where
  "step f s = (case s of (w, tr) \<Rightarrow> (case f w of (a, w') \<Rightarrow> (a, w', tr)))"

text \<open>An effect on the controller's own queue or event recorder: the trace alone records it.\<close>

definition note_call :: "call \<Rightarrow> ('w, unit) io" where
  "note_call c s = (case s of (w, tr) \<Rightarrow> ((), w, tr @ [c]))"

text \<open>\<open>cache.SplitMetaNamespaceKey\<close>: the namespace of a key with at most one slash.\<close>

definition SplitMetaNamespaceKey :: "string \<Rightarrow> error + string" where
  "SplitMetaNamespaceKey key =
     (let slashes = length (filter (\<lambda>c. c = CHR ''/'') key)
      in if slashes = 0 then Inr []
         else if slashes = 1 then Inr (takeWhile (\<lambda>c. c \<noteq> CHR ''/'') key)
         else Inl UnexpectedKeyFormat)"

subsection \<open>The exposer triple (handle, lines 516 to 681)\<close>

text \<open>The closure of lines 547 to 564.\<close>

definition adopt_exposerRoute ::
  "'w collaborators \<Rightarrow> Route \<Rightarrow> Route \<Rightarrow> ('w, error + Route) io" where
  "adopt_exposerRoute A routeReadOnly desiredExposerRoute =
     bnd (perform (Call_Routes_Get (Name desiredExposerRoute))
            (Routes_Get A (Name desiredExposerRoute)))
       (\<lambda>r. case r of
          Inl err \<Rightarrow> ret (Inl err)
        | Inr exposerRoute \<Rightarrow>
            if \<not> IsControlledBy exposerRoute routeReadOnly then ret (Inl ExposerRouteCollision)
            else
              let desired = desiredExposerRoute\<lparr>ResourceVersion := ResourceVersion exposerRoute\<rparr>
              in perform (Call_Routes_Update desired) (Routes_Update A desired))"

definition desiredExposerRoute ::
  "'w collaborators \<Rightarrow> RouteController \<Rightarrow> Route \<Rightarrow> string \<Rightarrow> Challenge \<Rightarrow> Route" where
  "desiredExposerRoute A rc routeReadOnly tmpName challenge =
     routeReadOnly
       \<lparr>Name := tmpName,
        ResourceVersion := [],
        Labels := Some (map_assign (case Labels routeReadOnly of None \<Rightarrow> [] | Some l \<Rightarrow> l)
                          (AcmeTemporaryLabel rc) ''true''),
        OwnerReferences :=
          [\<lparr>ref_APIVersion = ''route.openshift.io/v1'', ref_Kind = ''Route'',
            ref_Name = Name routeReadOnly, ref_UID = UID routeReadOnly,
            ref_Controller = Some True\<rparr>],
        Spec := (Spec routeReadOnly)
          \<lparr>Path := HTTP01ChallengePath A (chal_Token challenge),
           To := \<lparr>to_Kind = ''Service'', to_Name = tmpName\<rparr>\<rparr>\<rparr>"

definition handle_exposerRoute ::
  "'w collaborators \<Rightarrow> RouteController \<Rightarrow> Route \<Rightarrow> string \<Rightarrow> Challenge
     \<Rightarrow> ('w, error + Route) io" where
  "handle_exposerRoute A rc routeReadOnly tmpName challenge =
     (let desired = desiredExposerRoute A rc routeReadOnly tmpName challenge
      in bnd (perform (Call_Routes_Create desired) (Routes_Create A desired))
           (\<lambda>r. case r of
              Inr exposerRoute \<Rightarrow> ret (Inr exposerRoute)
            | Inl err \<Rightarrow>
                if IsAlreadyExists err
                then RetryOnConflict (adopt_exposerRoute A routeReadOnly desired)
                else ret (Inl err)))"

definition ownerRefToExposerRoute :: "Route \<Rightarrow> OwnerReference" where
  "ownerRefToExposerRoute exposerRoute =
     \<lparr>ref_APIVersion = ''v1'', ref_Kind = ''Route'', ref_Name = Name exposerRoute,
      ref_UID = UID exposerRoute, ref_Controller = None\<rparr>"

definition desiredExposerRS :: "RouteController \<Rightarrow> Route \<Rightarrow> string \<Rightarrow> ReplicaSet" where
  "desiredExposerRS rc exposerRoute tmpName =
     \<lparr>Name = tmpName, Namespace = [], UID = [], ResourceVersion = [], Generation = 0,
      DeletionTimestamp = None,
      Labels = Some [(AcmeTemporaryLabel rc, ''true'')],
      Annotations = None,
      OwnerReferences = [ownerRefToExposerRoute exposerRoute],
      rs_Spec = \<lparr>Replicas = 2, Selector = [(''app'', tmpName)],
                 Template_Labels = [(''app'', tmpName)]\<rparr>\<rparr>"

text \<open>The closure of lines 612 to 629.\<close>

definition adopt_exposerRS ::
  "'w collaborators \<Rightarrow> Route \<Rightarrow> ReplicaSet \<Rightarrow> ('w, error + ReplicaSet) io" where
  "adopt_exposerRS A routeReadOnly desired =
     bnd (perform (Call_ReplicaSets_Get (Name desired)) (ReplicaSets_Get A (Name desired)))
       (\<lambda>r. case r of
          Inl err \<Rightarrow> ret (Inl err)
        | Inr exposerRS \<Rightarrow>
            if \<not> IsControlledBy exposerRS routeReadOnly then ret (Inl ExposerReplicaSetCollision)
            else
              let desired' = desired\<lparr>ResourceVersion := ResourceVersion exposerRS\<rparr>
              in perform (Call_ReplicaSets_Update desired') (ReplicaSets_Update A desired'))"

definition handle_exposerRS ::
  "'w collaborators \<Rightarrow> RouteController \<Rightarrow> Route \<Rightarrow> Route \<Rightarrow> string
     \<Rightarrow> ('w, error + ReplicaSet) io" where
  "handle_exposerRS A rc routeReadOnly exposerRoute tmpName =
     (let desired = desiredExposerRS rc exposerRoute tmpName
      in bnd (perform (Call_ReplicaSets_Create desired) (ReplicaSets_Create A desired))
           (\<lambda>r. case r of
              Inr exposerRS \<Rightarrow> ret (Inr exposerRS)
            | Inl err \<Rightarrow>
                if IsAlreadyExists err
                then RetryOnConflict (adopt_exposerRS A routeReadOnly desired)
                else ret (Inl err)))"

definition desiredExposerService :: "RouteController \<Rightarrow> Route \<Rightarrow> string \<Rightarrow> Service" where
  "desiredExposerService rc exposerRoute tmpName =
     \<lparr>Name = tmpName, Namespace = [], UID = [], ResourceVersion = [], Generation = 0,
      DeletionTimestamp = None,
      Labels = Some [(AcmeTemporaryLabel rc, ''true'')],
      Annotations = None,
      OwnerReferences = [ownerRefToExposerRoute exposerRoute],
      svc_Spec = \<lparr>svc_Selector = [(''app'', tmpName)], svc_Type = ''ClusterIP''\<rparr>\<rparr>"

text \<open>The closure of lines 657 to 674.\<close>

definition adopt_exposerService ::
  "'w collaborators \<Rightarrow> Route \<Rightarrow> Service \<Rightarrow> ('w, error + Service) io" where
  "adopt_exposerService A routeReadOnly desired =
     bnd (perform (Call_Services_Get (Name desired)) (Services_Get A (Name desired)))
       (\<lambda>r. case r of
          Inl err \<Rightarrow> ret (Inl err)
        | Inr exposerService \<Rightarrow>
            if \<not> IsControlledBy exposerService routeReadOnly
            then ret (Inl ExposerServiceCollision)
            else
              let desired' = desired\<lparr>ResourceVersion := ResourceVersion exposerService\<rparr>
              in perform (Call_Services_Update desired') (Services_Update A desired'))"

definition handle_exposerService ::
  "'w collaborators \<Rightarrow> RouteController \<Rightarrow> Route \<Rightarrow> Route \<Rightarrow> string
     \<Rightarrow> ('w, error + Service) io" where
  "handle_exposerService A rc routeReadOnly exposerRoute tmpName =
     (let desired = desiredExposerService rc exposerRoute tmpName
      in bnd (perform (Call_Services_Create desired) (Services_Create A desired))
           (\<lambda>r. case r of
              Inr exposerService \<Rightarrow> ret (Inr exposerService)
            | Inl err \<Rightarrow>
                if IsAlreadyExists err
                then RetryOnConflict (adopt_exposerService A routeReadOnly desired)
                else ret (Inl err)))"

subsection \<open>Pending authorizations (handle, lines 479 to 702)\<close>

text \<open>
  The body of the loop over the authorizations gives \<open>Some err\<close> where the source returns
  \<open>err\<close> from the handler and \<open>None\<close> where it goes on to the next authorization.
\<close>

definition handle_challenge ::
  "'w collaborators \<Rightarrow> RouteController \<Rightarrow> Route \<Rightarrow> Order \<Rightarrow> string \<Rightarrow> Challenge
     \<Rightarrow> ('w, error option) io" where
  "handle_challenge A rc routeReadOnly order authzUrl challenge =
     (if chal_Status challenge = StatusPending then
        let tmpName = getTemporaryName A
              (Name routeReadOnly @ '':'' @ order_URI order @ '':'' @ authzUrl @ '':''
                 @ chal_URI challenge)
        in bnd (handle_exposerRoute A rc routeReadOnly tmpName challenge)
             (\<lambda>r. case r of
                Inl err \<Rightarrow> ret (Some err)
              | Inr exposerRoute \<Rightarrow>
                  bnd (handle_exposerRS A rc routeReadOnly exposerRoute tmpName)
                    (\<lambda>r. case r of
                       Inl err \<Rightarrow> ret (Some err)
                     | Inr exposerRS \<Rightarrow>
                         bnd (handle_exposerService A rc routeReadOnly exposerRoute tmpName)
                           (\<lambda>r. case r of
                              Inl err \<Rightarrow> ret (Some err)
                            | Inr exposerService \<Rightarrow>
                                perform (Call_Accept challenge) (Accept A challenge))))
      else if chal_Status challenge = StatusProcessing \<or> chal_Status challenge = StatusValid
              \<or> chal_Status challenge = StatusInvalid then ret None
      else ret (Some (InvalidChallengeStatus (chal_Status challenge))))"

text \<open>The loop of lines 500 to 505 over the challenges of an authorization.\<close>

fun select_challenge :: "Challenge option \<Rightarrow> Challenge list \<Rightarrow> Challenge option" where
  "select_challenge challenge [] = challenge"
| "select_challenge challenge (c # cs) =
     select_challenge (if chal_Type c = ''http-01'' then Some c else challenge) cs"

definition handle_authorization ::
  "'w collaborators \<Rightarrow> RouteController \<Rightarrow> Route \<Rightarrow> Order \<Rightarrow> string
     \<Rightarrow> ('w, error option) io" where
  "handle_authorization A rc routeReadOnly order authzUrl =
     bnd (perform (Call_GetAuthorization authzUrl) (GetAuthorization A authzUrl))
       (\<lambda>r. case r of
          Inl err \<Rightarrow> ret (Some err)
        | Inr authz \<Rightarrow>
            if authz_Status authz = StatusPending then
              (case select_challenge None (Challenges authz) of
                 None \<Rightarrow> ret (Some NoViableChallenge)
               | Some challenge \<Rightarrow> handle_challenge A rc routeReadOnly order authzUrl challenge)
            else if authz_Status authz = StatusValid \<or> authz_Status authz = StatusInvalid
                    \<or> authz_Status authz = StatusDeactivated
                    \<or> authz_Status authz = StatusExpired
                    \<or> authz_Status authz = StatusRevoked then ret None
            else ret (Some (InvalidAuthzStatus (authz_Status authz))))"

fun handle_authorizations ::
  "'w collaborators \<Rightarrow> RouteController \<Rightarrow> Route \<Rightarrow> Order \<Rightarrow> string list
     \<Rightarrow> ('w, error option) io" where
  "handle_authorizations A rc routeReadOnly order [] = ret None"
| "handle_authorizations A rc routeReadOnly order (authzUrl # authzUrls) =
     bnd (handle_authorization A rc routeReadOnly order authzUrl)
       (\<lambda>r. case r of
          Some err \<Rightarrow> ret (Some err)
        | None \<Rightarrow> handle_authorizations A rc routeReadOnly order authzUrls)"


subsection \<open>The order state machine (handle, lines 369 to 780)\<close>

text \<open>Order ready or valid: lines 710 to 762.\<close>

definition handle_ready ::
  "'w collaborators \<Rightarrow> RouteController \<Rightarrow> Route \<Rightarrow> Status \<Rightarrow> Order \<Rightarrow> ('w, outcome) io" where
  "handle_ready A rc routeReadOnly status order =
     bnd (step (rsa_GenerateKey A))
       (\<lambda>r. case r of
          Inl err \<Rightarrow> ret (Returned (Some (FailedGenerateKey err)))
        | Inr privateKey \<Rightarrow>
            bnd (step (CreateCertificateRequest A (Host (Spec routeReadOnly)) privateKey))
              (\<lambda>r. case r of
                 Inl err \<Rightarrow> ret (Returned (Some (FailedCreateCSR err)))
               | Inr csr \<Rightarrow>
                   bnd (perform (Call_CreateOrderCert (FinalizeURL order))
                          (CreateOrderCert A (FinalizeURL order) csr))
                     (\<lambda>r. case r of
                        Inl err \<Rightarrow> ret (Returned (Some err))
                      | Inr (der, certUrl) \<Rightarrow>
                          (case NewCertificateFromDER A der privateKey of
                             Inl err \<Rightarrow> ret (Returned (Some (CantConvertCertificate err)))
                           | Inr (keyPem, crtPem) \<Rightarrow>
                               let tls = (case TLS (Spec routeReadOnly) of
                                     None \<Rightarrow> \<lparr>Termination = ''edge'', Certificate = [],
                                              Key = [],
                                              InsecureEdgeTerminationPolicy = ''Redirect''\<rparr>
                                   | Some tls \<Rightarrow> tls);
                                   route = routeReadOnly\<lparr>Spec := (Spec routeReadOnly)
                                     \<lparr>TLS := Some (tls\<lparr>Key := keyPem, Certificate := crtPem\<rparr>)\<rparr>\<rparr>
                               in bnd (perform (Call_Routes_Update route) (Routes_Update A route))
                                    (\<lambda>r. case r of
                                       Inl err \<Rightarrow> ret (Returned (Some (CantUpdateRoute err)))
                                     | Inr _ \<Rightarrow>
                                         updateStatus A rc routeReadOnly
                                           (status\<lparr>ProvisioningStatus := None\<rparr>))))))"

text \<open>
  The switch on the status of the fetched order, lines 470 to 779. In the branch of an
  invalid order the source names \<open>authorization\<close>, which nothing binds; the event is
  recorded here without its detail.
\<close>

definition handle_order ::
  "'w collaborators \<Rightarrow> RouteController \<Rightarrow> string \<Rightarrow> Route \<Rightarrow> Status \<Rightarrow> ProvisioningStatus_t
     \<Rightarrow> Order \<Rightarrow> ('w, outcome) io" where
  "handle_order A rc key routeReadOnly status0 ps order =
     (let status = status0\<lparr>ProvisioningStatus := Some (ps\<lparr>OrderStatus := order_Status order\<rparr>)\<rparr>
      in if order_Status order = StatusPending then
           bnd (handle_authorizations A rc routeReadOnly order (AuthzURLs order))
             (\<lambda>r. case r of
                Some err \<Rightarrow> ret (Returned (Some err))
              | None \<Rightarrow> updateStatus A rc routeReadOnly status)
         else if order_Status order = StatusValid \<or> order_Status order = StatusReady then
           handle_ready A rc routeReadOnly status order
         else if order_Status order = StatusProcessing then
           bnd (note_call (Call_queue_AddAfter key))
             (\<lambda>_. updateStatus A rc routeReadOnly status)
         else if order_Status order = StatusInvalid then
           bnd (note_call (Call_recorder_Eventf ''AcmeFailedAuthorization''))
             (\<lambda>_. updateStatus A rc routeReadOnly status)
         else ret (Returned (Some (InvalidOrderStatus (order_Status order)))))"

text \<open>
  Lines 436 to 448: a new order. \<open>status.ProvisioningStatus\<close> is a pointer, and the
  two assignments go through it.
\<close>

definition handle_new_order ::
  "'w collaborators \<Rightarrow> RouteController \<Rightarrow> Route \<Rightarrow> Status \<Rightarrow> ('w, outcome) io" where
  "handle_new_order A rc routeReadOnly status =
     (let domain = Host (Spec routeReadOnly)
      in bnd (perform (Call_AuthorizeOrder domain) (AuthorizeOrder A domain))
           (\<lambda>r. case r of
              Inl err \<Rightarrow> ret (Returned (Some err))
            | Inr order \<Rightarrow>
                bnd (step (Now A))
                  (\<lambda>now. case ProvisioningStatus status of
                     None \<Rightarrow> ret Panicked
                   | Some ps \<Rightarrow>
                       updateStatus A rc routeReadOnly
                         (status\<lparr>ProvisioningStatus :=
                            Some (ps\<lparr>StartedAt := now, OrderUri := order_URI order\<rparr>)\<rparr>))))"

text \<open>Lines 450 to 468, then the switch: an order is on record.\<close>

definition handle_existing_order ::
  "'w collaborators \<Rightarrow> RouteController \<Rightarrow> string \<Rightarrow> Route \<Rightarrow> Status \<Rightarrow> ProvisioningStatus_t
     \<Rightarrow> ('w, outcome) io" where
  "handle_existing_order A rc key routeReadOnly status ps =
     bnd (step (Now A))
       (\<lambda>now. if now > StartedAt ps + orderTimeout rc
          then updateStatus A rc routeReadOnly (status\<lparr>ProvisioningStatus := None\<rparr>)
          else
            bnd (perform (Call_GetOrder (OrderUri ps)) (GetOrder A (OrderUri ps)))
              (\<lambda>r. case r of
                 Inl err \<Rightarrow>
                   (case as_acme_Error err of
                      None \<Rightarrow> ret (Returned (Some err))
                    | Some StatusCode \<Rightarrow>
                        if StatusCode \<noteq> StatusNotFound then ret (Returned (Some err))
                        else updateStatus A rc routeReadOnly
                               (status\<lparr>ProvisioningStatus := Some (ps\<lparr>OrderUri := []\<rparr>)\<rparr>))
               | Inr order \<Rightarrow> handle_order A rc key routeReadOnly status ps order))"

text \<open>
  Lines 419 to 448: with no provisioning status the renewal policy decides; a new order
  is begun when the status is nil or holds no order URI.
\<close>

definition handle_status ::
  "'w collaborators \<Rightarrow> RouteController \<Rightarrow> string \<Rightarrow> Route \<Rightarrow> Status \<Rightarrow> ('w, outcome) io" where
  "handle_status A rc key routeReadOnly status =
     (case ProvisioningStatus status of
        None \<Rightarrow>
          bnd (step (Now A))
            (\<lambda>now. case needsCertKey (certs rc) now routeReadOnly of
               Inl err \<Rightarrow> ret (Returned (Some err))
             | Inr reason \<Rightarrow>
                 if length reason = 0 then updateStatus A rc routeReadOnly status
                 else handle_new_order A rc routeReadOnly status)
      | Some ps \<Rightarrow>
          if length (OrderUri ps) = 0 then handle_new_order A rc routeReadOnly status
          else handle_existing_order A rc key routeReadOnly status ps)"

definition handle :: "'w collaborators \<Rightarrow> RouteController \<Rightarrow> string \<Rightarrow> ('w, outcome) io" where
  "handle A rc key =
     (case SplitMetaNamespaceKey key of
        Inl err \<Rightarrow> ret (Returned (Some err))
      | Inr namespace \<Rightarrow>
          (case GetByKey A key of
             Inl err \<Rightarrow> ret (Returned (Some err))
           | Inr None \<Rightarrow> ret (Returned None)
           | Inr (Some routeReadOnly) \<Rightarrow>
               if DeletionTimestamp routeReadOnly \<noteq> None then ret (Returned None)
               else if \<not> IsAdmitted A routeReadOnly then ret (Returned None)
               else (case GetClient A of
                  Some err \<Rightarrow> ret (Returned (Some (FailedGetClient err)))
                | None \<Rightarrow>
                    (case getStatus (json rc) (AcmeStatusAnnotation rc) routeReadOnly of
                       Inl err \<Rightarrow> ret (Returned (Some (CantGetStatus err)))
                     | Inr status \<Rightarrow> handle_status A rc key routeReadOnly status))))"


section \<open>Account reconciler (acme.go)\<close>

text \<open>
  The collaborators of \<open>sync\<close>: the informer caches (read once, read-only), \<open>yaml.v2\<close> on
  \<open>api.CertIssuer\<close>, \<open>helpers.PrivateKeyFromSecret\<close>, the PEM encoding of a fresh key, the
  three account calls of the ACME client, the two writes to the object store,
  \<open>sha512.Sum512\<close> with its 64 bytes as a string, and the two names of package \<open>api\<close>.
\<close>

record 'w account_collaborators =
  ConfigMaps_GetByKey :: "string \<Rightarrow> error + ConfigMap option"
  yaml_Unmarshal :: "string \<Rightarrow> CertIssuer option"
  yaml_Marshal :: "CertIssuer \<Rightarrow> string option"
  Secrets_Lister_Get :: "string \<Rightarrow> string \<Rightarrow> error + Secret"
  PrivateKeyFromSecret :: "Secret \<Rightarrow> error + string"
  account_GenerateKey :: "'w \<Rightarrow> (error + string) \<times> 'w"
  pem_EncodeToMemory :: "string \<Rightarrow> string"
  Register :: "acme_Client \<Rightarrow> acme_Account \<Rightarrow> 'w \<Rightarrow> (error + acme_Account) \<times> 'w"
  UpdateReg :: "acme_Client \<Rightarrow> acme_Account \<Rightarrow> 'w \<Rightarrow> (error + acme_Account) \<times> 'w"
  GetReg :: "acme_Client \<Rightarrow> string \<Rightarrow> 'w \<Rightarrow> (error + acme_Account) \<times> 'w"
  Secrets_Create :: "string \<Rightarrow> Secret \<Rightarrow> 'w \<Rightarrow> (error + Secret) \<times> 'w"
  ConfigMaps_Update :: "ConfigMap \<Rightarrow> 'w \<Rightarrow> (error + ConfigMap) \<times> 'w"
  sha512_Sum512 :: "string \<Rightarrow> string"
  CertIssuerDataKey :: string
  CertIssuerTypeAcme :: string

definition IsNotFound :: "error \<Rightarrow> bool" where
  "IsNotFound err = (err = ApiNotFound)"

text \<open>\<open>fmt.Sprint\<close> of a slice of strings: the elements between brackets, a space apart.\<close>

fun join_spaces :: "string list \<Rightarrow> string" where
  "join_spaces [] = []"
| "join_spaces [x] = x"
| "join_spaces (x # y # ys) = x @ '' '' @ join_spaces (y # ys)"

definition Sprint_strings :: "string list \<Rightarrow> string" where
  "Sprint_strings xs = ''['' @ join_spaces xs @ '']''"

text \<open>\<open>fmt.Sprint\<close> of an array of bytes: the bytes in decimal between brackets.\<close>

definition digit :: "nat \<Rightarrow> char" where
  "digit n = char_of (48 + n)"

definition decimal_byte :: "char \<Rightarrow> string" where
  "decimal_byte c =
     (let n = (of_char c :: nat)
      in if n < 10 then [digit n]
         else if n < 100 then [digit (n div 10), digit (n mod 10)]
         else [digit (n div 100), digit (n div 10 mod 10), digit (n mod 10)])"

definition Sprint_bytes :: "string \<Rightarrow> string" where
  "Sprint_bytes bs = ''['' @ join_spaces (map decimal_byte bs) @ '']''"

text \<open>\<open>hashAccount\<close>: the 64 bytes of the array it returns.\<close>

definition hashAccount :: "'w account_collaborators \<Rightarrow> AcmeAccount \<Rightarrow> string" where
  "hashAccount A account = sha512_Sum512 A (Sprint_strings (Contacts account))"

text \<open>
  \<open>reflect.DeepEqual\<close> on the two kinds of value that \<open>sync\<close> hands it: values of
  different types are never deeply equal, values of one type are compared by content.
\<close>

datatype go_value = ByteArray64 string | ByteSlice string

fun reflect_DeepEqual :: "go_value \<Rightarrow> go_value \<Rightarrow> bool" where
  "reflect_DeepEqual (ByteArray64 x) (ByteArray64 y) = (x = y)"
| "reflect_DeepEqual (ByteSlice x) (ByteSlice y) = (x = y)"
| "reflect_DeepEqual _ _ = False"

text \<open>Lines 326 to 357: no secret, a new account is registered.\<close>

definition sync_register ::
  "'w account_collaborators \<Rightarrow> ConfigMap \<Rightarrow> AcmeCertIssuer_t \<Rightarrow> acme_Client \<Rightarrow> acme_Account
     \<Rightarrow> ('w, error + acme_Account) io" where
  "sync_register A cmReadOnly acmeIssuer client account =
     bnd (step (account_GenerateKey A))
       (\<lambda>r. case r of
          Inl err \<Rightarrow> ret (Inl err)
        | Inr privateKey \<Rightarrow>
            let client' = client\<lparr>client_Key := privateKey\<rparr>;
                keyPem = pem_EncodeToMemory A privateKey
            in bnd (perform (Call_Register client' account) (Register A client' account))
                 (\<lambda>r. case r of
                    Inl err \<Rightarrow> ret (Inl err)
                  | Inr account' \<Rightarrow>
                      let secret =
                            \<lparr>Name = AccountCredentialsSecretName acmeIssuer, Namespace = [],
                             UID = [], ResourceVersion = [], Generation = 0,
                             DeletionTimestamp = None, Labels = None, Annotations = None,
                             OwnerReferences = [],
                             secret_Type = ''Opaque'',
                             secret_Data = [(''tls.key'', keyPem)]\<rparr>
                      in bnd (perform (Call_Secrets_Create secret)
                                (Secrets_Create A (Namespace cmReadOnly) secret))
                           (\<lambda>r. case r of
                              Inl err \<Rightarrow> ret (Inl err)
                            | Inr _ \<Rightarrow> ret (Inr account'))))"

text \<open>Lines 359 to 386: the secret exists.\<close>

definition sync_existing ::
  "'w account_collaborators \<Rightarrow> Secret \<Rightarrow> AcmeCertIssuer_t \<Rightarrow> acme_Client \<Rightarrow> acme_Account
     \<Rightarrow> ('w, error + acme_Account) io" where
  "sync_existing A secret acmeIssuer client account =
     (case PrivateKeyFromSecret A secret of
        Inl err \<Rightarrow> ret (Inl err)
      | Inr key \<Rightarrow>
          let client' = client\<lparr>client_Key := key\<rparr>;
              accountHash = hashAccount A (Account acmeIssuer)
          in if reflect_DeepEqual (ByteArray64 accountHash)
                  (ByteSlice (status_Hash (Account_Status (Account acmeIssuer))))
             then
               let account' = account\<lparr>Contact := Contacts (Account acmeIssuer)\<rparr>
               in perform (Call_UpdateReg client' account') (UpdateReg A client' account')
             else if length (status_URI (Account_Status (Account acmeIssuer))) = 0
             then perform (Call_GetReg client' []) (GetReg A client' [])
             else ret (Inr account))"

text \<open>Lines 389 to 393: the account is merged into the status of the issuer.\<close>

definition merge_account ::
  "'w account_collaborators \<Rightarrow> AcmeCertIssuer_t \<Rightarrow> acme_Account \<Rightarrow> AcmeCertIssuer_t" where
  "merge_account A acmeIssuer account =
     (let merged = \<lparr>Contacts = Contact account,
                    Account_Status = (Account_Status (Account acmeIssuer))
                      \<lparr>status_URI := acct_URI account,
                       status_OrdersURL := OrdersURL account,
                       status_AccountStatus := acct_Status account\<rparr>\<rparr>
      in acmeIssuer\<lparr>Account := merged\<lparr>Account_Status := (Account_Status merged)
           \<lparr>status_Hash := Sprint_bytes (hashAccount A merged)\<rparr>\<rparr>\<rparr>)"

text \<open>Lines 395 to 412: the config map is written back when it changed.\<close>

definition sync_write_back ::
  "'w account_collaborators \<Rightarrow> ConfigMap \<Rightarrow> CertIssuer \<Rightarrow> ('w, outcome) io" where
  "sync_write_back A cmReadOnly certIssuer =
     (case yaml_Marshal A certIssuer of
        None \<Rightarrow> ret (Returned (Some InvalidIssuerData))
      | Some certIssuerBytes \<Rightarrow>
          (case Data cmReadOnly of
             None \<Rightarrow> ret Panicked
           | Some data \<Rightarrow>
               let cm = cmReadOnly\<lparr>Data := Some (map_assign data (CertIssuerDataKey A)
                                                     certIssuerBytes)\<rparr>
               in if cm = cmReadOnly then ret (Returned None)
                  else bnd (perform (Call_ConfigMaps_Update cm) (ConfigMaps_Update A cm))
                         (\<lambda>r. case r of
                            Inl err \<Rightarrow> ret (Returned (Some err))
                          | Inr _ \<Rightarrow> ret (Returned None))))"

text \<open>Reading a Go map with the comma-ok form.\<close>

definition map_index_ok :: "(string \<times> string) list option \<Rightarrow> string \<Rightarrow> string option" where
  "map_index_ok m k = (case m of None \<Rightarrow> None | Some data \<Rightarrow> map_of data k)"

text \<open>Lines 308 to 393, for an issuer of type acme.\<close>

definition sync_acme ::
  "'w account_collaborators \<Rightarrow> ConfigMap \<Rightarrow> CertIssuer \<Rightarrow> ('w, outcome) io" where
  "sync_acme A cmReadOnly certIssuer =
     (let acmeIssuer0 = AcmeCertIssuer certIssuer;
          client = \<lparr>DirectoryURL = DirectoryUrl acmeIssuer0,
                    UserAgent = ''github.com/tnozicka/openshift-acme'', client_Key = []\<rparr>;
          account = \<lparr>acct_URI = [], Contact = Contacts (Account acmeIssuer0),
                     acct_Status = [], OrdersURL = []\<rparr>;
          acmeIssuer =
            (if length (AccountCredentialsSecretName acmeIssuer0) = 0
             then acmeIssuer0\<lparr>AccountCredentialsSecretName := Name cmReadOnly\<rparr>
             else acmeIssuer0)
      in bnd (case Secrets_Lister_Get A (Namespace cmReadOnly)
                     (AccountCredentialsSecretName acmeIssuer) of
                Inl err \<Rightarrow>
                  if \<not> IsNotFound err then ret (Inl err)
                  else sync_register A cmReadOnly acmeIssuer client account
              | Inr secret \<Rightarrow> sync_existing A secret acmeIssuer client account)
           (\<lambda>r. case r of
              Inl err \<Rightarrow> ret (Returned (Some err))
            | Inr account' \<Rightarrow>
                sync_write_back A cmReadOnly
                  (certIssuer\<lparr>AcmeCertIssuer := merge_account A acmeIssuer account'\<rparr>)))"

definition sync :: "'w account_collaborators \<Rightarrow> string \<Rightarrow> ('w, outcome) io" where
  "sync A key =
     (case SplitMetaNamespaceKey key of
        Inl err \<Rightarrow> ret (Returned (Some err))
      | Inr namespace \<Rightarrow>
          (case ConfigMaps_GetByKey A key of
             Inl err \<Rightarrow> ret (Returned (Some err))
           | Inr None \<Rightarrow> ret (Returned None)
           | Inr (Some cmReadOnly) \<Rightarrow>
               if DeletionTimestamp cmReadOnly \<noteq> None then ret (Returned None)
               else (case map_index_ok (Data cmReadOnly) (CertIssuerDataKey A) of
                  None \<Rightarrow> ret (Returned (Some MissingIssuerData))
                | Some certIssuerData \<Rightarrow>
                    (case yaml_Unmarshal A certIssuerData of
                       None \<Rightarrow> ret (Returned (Some InvalidIssuerData))
                     | Some certIssuer \<Rightarrow>
                         if issuer_Type certIssuer \<noteq> CertIssuerTypeAcme A
                         then ret (Returned None)
                         else sync_acme A cmReadOnly certIssuer))))"

text \<open>The account calls among all calls.\<close>

fun is_account_call :: "call \<Rightarrow> bool" where
  "is_account_call (Call_Register client account) = True"
| "is_account_call (Call_UpdateReg client account) = True"
| "is_account_call (Call_GetReg client url) = True"
| "is_account_call _ = False"

section \<open>Sample inputs\<close>

text \<open>
  A route without TLS as spec scenario 1 has it, the same route with a certificate valid
  from 0 to 300, and a fragment of \<open>encoding/json\<close> on five documents: it decodes what
  it encodes and rejects everything else, the empty input included.
\<close>

definition sample_cert_lib :: cert_lib where
  "sample_cert_lib =
     \<lparr>CertPemData_Certificate =
        (\<lambda>key crt. if crt = ''PEM'' then Some \<lparr>NotBefore = 0, NotAfter = 300\<rparr> else None),
      VerifyHostname = (\<lambda>c h. h = ''www.example.com''),
      IsValid = (\<lambda>c t. \<not> (t < NotBefore c \<or> NotAfter c < t)),
      NormFloat64 = (\<lambda>t. 1)\<rparr>"

definition web_route :: Route where
  "web_route =
     \<lparr>Name = ''web'', Namespace = ''acme'', UID = ''uid-web'', ResourceVersion = ''7'',
      Generation = 1, DeletionTimestamp = None, Labels = None, Annotations = None,
      OwnerReferences = [],
      Spec = \<lparr>Host = ''www.example.com'', Path = [],
              To = \<lparr>to_Kind = ''Service'', to_Name = ''web''\<rparr>, TLS = None\<rparr>\<rparr>"

definition tls_route :: Route where
  "tls_route = web_route\<lparr>Spec := (Spec web_route)
     \<lparr>TLS := Some \<lparr>Termination = ''edge'', Certificate = ''PEM'', Key = ''KEY'',
                    InsecureEdgeTerminationPolicy = ''Redirect''\<rparr>\<rparr>\<rparr>"

text \<open>
  A certificate whose lifetime, three times 2^63 nanoseconds, exceeds the largest
  duration, once with the draw of the sample library and once with a negative draw.
\<close>

definition long_cert :: x509_Certificate where
  "long_cert = \<lparr>NotBefore = 0, NotAfter = 27670116110564327424\<rparr>"

definition long_cert_lib :: cert_lib where
  "long_cert_lib = sample_cert_lib\<lparr>CertPemData_Certificate := (\<lambda>key crt. Some long_cert)\<rparr>"

definition long_cert_lib_negative :: cert_lib where
  "long_cert_lib_negative = long_cert_lib\<lparr>NormFloat64 := (\<lambda>t. - 1)\<rparr>"

definition status_order :: Status where
  "status_order = \<lparr>ObservedGeneration = 1,
     ProvisioningStatus = Some \<lparr>StartedAt = 100, OrderUri = ''https://ca/order/1'', OrderStatus = []\<rparr>\<rparr>"

definition status_order_pending :: Status where
  "status_order_pending = \<lparr>ObservedGeneration = 1,
     ProvisioningStatus = Some \<lparr>StartedAt = 100, OrderUri = ''https://ca/order/1'', OrderStatus = ''pending''\<rparr>\<rparr>"

definition status_no_order :: Status where
  "status_no_order = \<lparr>ObservedGeneration = 1,
     ProvisioningStatus = Some \<lparr>StartedAt = 100, OrderUri = [], OrderStatus = []\<rparr>\<rparr>"

definition sample_documents :: "(string \<times> Status) list" where
  "sample_documents =
     [(''{\"observedGeneration\":0,\"provisioningStatus\":null}'', zero_Status),
      (''{\"observedGeneration\":1,\"provisioningStatus\":null}'', zero_Status\<lparr>ObservedGeneration := 1\<rparr>),
      (''{\"observedGeneration\":1,\"provisioningStatus\":{\"orderUri\":\"https://ca/order/1\"}}'', status_order),
      (''{\"observedGeneration\":1,\"provisioningStatus\":{\"orderUri\":\"https://ca/order/1\",\"orderStatus\":\"pending\"}}'', status_order_pending),
      (''{\"observedGeneration\":1,\"provisioningStatus\":{\"orderUri\":\"\"}}'', status_no_order)]"

definition sample_json :: json_lib where
  "sample_json =
     \<lparr>Marshal = (\<lambda>s. map_of (map (\<lambda>(b, s). (s, b)) sample_documents) s),
      Unmarshal = map_of sample_documents\<rparr>"

definition sample_rc :: RouteController where
  "sample_rc = \<lparr>orderTimeout = 3600, json = sample_json, certs = sample_cert_lib,
     AcmeStatusAnnotation = ''acme.openshift.io/status'',
     AcmeTemporaryLabel = ''acme.openshift.io/temporary''\<rparr>"

definition order1 :: Order where
  "order1 = \<lparr>order_URI = ''https://ca/order/1'', order_Status = ''pending'',
     AuthzURLs = [''https://ca/authz/1''], FinalizeURL = ''https://ca/finalize/1''\<rparr>"

definition chal_dns :: Challenge where
  "chal_dns = \<lparr>chal_Type = ''dns-01'', chal_URI = ''https://ca/chal/0'', chal_Token = ''t0'',
     chal_Status = ''pending''\<rparr>"

definition chal_http_a :: Challenge where
  "chal_http_a = \<lparr>chal_Type = ''http-01'', chal_URI = ''https://ca/chal/1'', chal_Token = ''t1'',
     chal_Status = ''pending''\<rparr>"

definition chal_http_b :: Challenge where
  "chal_http_b = \<lparr>chal_Type = ''http-01'', chal_URI = ''https://ca/chal/2'', chal_Token = ''t2'',
     chal_Status = ''pending''\<rparr>"

definition authz1 :: Authorization where
  "authz1 = \<lparr>authz_URI = ''https://ca/authz/1'', authz_Status = ''pending'',
     Challenges = [chal_http_a, chal_dns, chal_http_b]\<rparr>"

text \<open>
  A world whose state is its clock. The CA answers every call, the object store creates
  every object it is asked for, giving it a UID.
\<close>

definition sample_world :: "time collaborators" where
  "sample_world =
     \<lparr>GetByKey = (\<lambda>key. if key = ''acme/web'' then Inr (Some web_route) else Inr None),
      IsAdmitted = (\<lambda>r. True),
      GetClient = None,
      Now = (\<lambda>w. (w, w)),
      AuthorizeOrder = (\<lambda>domain w. (Inr order1, w)),
      GetOrder = (\<lambda>uri w. (Inr order1, w)),
      GetAuthorization = (\<lambda>uri w. (Inr authz1, w)),
      Accept = (\<lambda>c w. (None, w)),
      HTTP01ChallengePath = (\<lambda>token. ''/.well-known/acme-challenge/'' @ token),
      CreateOrderCert = (\<lambda>url csr w. (Inr (''DER'', ''https://ca/cert/1''), w)),
      Routes_Create = (\<lambda>r w. (Inr (r\<lparr>UID := ''uid-exposer''\<rparr>), w)),
      Routes_Get = (\<lambda>name w. (Inl ApiNotFound, w)),
      Routes_Update = (\<lambda>r w. (Inr r, w)),
      ReplicaSets_Create = (\<lambda>r w. (Inr (r\<lparr>UID := ''uid-rs''\<rparr>), w)),
      ReplicaSets_Get = (\<lambda>name w. (Inl ApiNotFound, w)),
      ReplicaSets_Update = (\<lambda>r w. (Inr r, w)),
      Services_Create = (\<lambda>r w. (Inr (r\<lparr>UID := ''uid-svc''\<rparr>), w)),
      Services_Get = (\<lambda>name w. (Inl ApiNotFound, w)),
      Services_Update = (\<lambda>r w. (Inr r, w)),
      rsa_GenerateKey = (\<lambda>w. (Inr ''KEY'', w)),
      CreateCertificateRequest = (\<lambda>host key w. (Inr ''CSR'', w)),
      NewCertificateFromDER = (\<lambda>der key. Inr (''KEY'', ''PEM'')),
      Sum512 = (\<lambda>s. ''0123456789abcdef'')\<rparr>"

text \<open>
  The route of spec scenario 4: an order is on record. Two worlds for it: one in which
  the CA does not know the order, one in which the order is pending.
\<close>

definition order_route :: Route where
  "order_route = web_route\<lparr>Annotations := Some [(''acme.openshift.io/status'',
     ''{\"observedGeneration\":1,\"provisioningStatus\":{\"orderUri\":\"https://ca/order/1\"}}'')]\<rparr>"

definition pending_world :: "time collaborators" where
  "pending_world =
     sample_world\<lparr>GetByKey := (\<lambda>key. if key = ''acme/web'' then Inr (Some order_route)
                                     else Inr None)\<rparr>"

definition lost_order_world :: "time collaborators" where
  "lost_order_world = pending_world\<lparr>GetOrder := (\<lambda>uri w. (Inl (AcmeError 404), w))\<rparr>"

text \<open>The route after an order was lost: a provisioning status without order URI.\<close>

definition no_order_route :: Route where
  "no_order_route = web_route\<lparr>Annotations := Some [(''acme.openshift.io/status'',
     ''{\"observedGeneration\":1,\"provisioningStatus\":{\"orderUri\":\"\"}}'')]\<rparr>"

definition no_order_world :: "time collaborators" where
  "no_order_world =
     sample_world\<lparr>GetByKey := (\<lambda>key. if key = ''acme/web'' then Inr (Some no_order_route)
                                     else Inr None)\<rparr>"

text \<open>
  The world of a second pass over the same pending challenge: the three exposer objects
  exist, as the first pass created them.
\<close>

definition tmpName1 :: string where
  "tmpName1 = ''acme-exposer-0123456789abcdef''"

definition exposerRoute1 :: Route where
  "exposerRoute1 =
     (desiredExposerRoute sample_world sample_rc order_route tmpName1 chal_http_b)
       \<lparr>UID := ''uid-exposer'', ResourceVersion := ''8''\<rparr>"

definition exposerRS1 :: ReplicaSet where
  "exposerRS1 = (desiredExposerRS sample_rc exposerRoute1 tmpName1)
     \<lparr>UID := ''uid-rs'', ResourceVersion := ''9''\<rparr>"

definition exposerService1 :: Service where
  "exposerService1 = (desiredExposerService sample_rc exposerRoute1 tmpName1)
     \<lparr>UID := ''uid-svc'', ResourceVersion := ''10''\<rparr>"

definition second_pass_world :: "time collaborators" where
  "second_pass_world =
     pending_world
       \<lparr>Routes_Create := (\<lambda>r w. (Inl ApiAlreadyExists, w)),
        Routes_Get := (\<lambda>name w. (Inr exposerRoute1, w)),
        ReplicaSets_Create := (\<lambda>r w. (Inl ApiAlreadyExists, w)),
        ReplicaSets_Get := (\<lambda>name w. (Inr exposerRS1, w)),
        Services_Create := (\<lambda>r w. (Inl ApiAlreadyExists, w)),
        Services_Get := (\<lambda>name w. (Inr exposerService1, w))\<rparr>"

text \<open>
  The world in which the replica set and the service of the exposer triple exist and the
  responder route is their controller.
\<close>

definition controllerRefToExposerRoute1 :: OwnerReference where
  "controllerRefToExposerRoute1 =
     (ownerRefToExposerRoute exposerRoute1)\<lparr>ref_Controller := Some True\<rparr>"

definition controlledRS1 :: ReplicaSet where
  "controlledRS1 = exposerRS1\<lparr>OwnerReferences := [controllerRefToExposerRoute1]\<rparr>"

definition controlledService1 :: Service where
  "controlledService1 = exposerService1\<lparr>OwnerReferences := [controllerRefToExposerRoute1]\<rparr>"

definition adoption_world :: "time collaborators" where
  "adoption_world =
     second_pass_world
       \<lparr>ReplicaSets_Get := (\<lambda>name w. (Inr controlledRS1, w)),
        Services_Get := (\<lambda>name w. (Inr controlledService1, w))\<rparr>"

text \<open>
  An issuer with one contact, in three states: its status holds the 16 bytes that the
  sample hash gives and no URI; it is as \<open>sync\<close> leaves it after \<open>GetReg\<close>; its URI,
  orders URL and account status are empty again.
\<close>

definition sample_Sum512 :: "string \<Rightarrow> string" where
  "sample_Sum512 s = ''0123456789abcdef''"

definition issuer_recover :: CertIssuer where
  "issuer_recover =
     \<lparr>issuer_Type = ''acme'',
      AcmeCertIssuer =
        \<lparr>DirectoryUrl = ''https://ca/directory'',
         Account = \<lparr>Contacts = [''mailto:ops@example.com''],
                    Account_Status = \<lparr>status_Hash = sample_Sum512 ''[mailto:ops@example.com]'',
                                       status_URI = [], status_OrdersURL = [],
                                       status_AccountStatus = []\<rparr>\<rparr>,
         AccountCredentialsSecretName = ''acme-account''\<rparr>\<rparr>"

definition issuer_stored :: CertIssuer where
  "issuer_stored =
     \<lparr>issuer_Type = ''acme'',
      AcmeCertIssuer =
        \<lparr>DirectoryUrl = ''https://ca/directory'',
         Account = \<lparr>Contacts = [''mailto:ops@example.com''],
                    Account_Status =
                      \<lparr>status_Hash = Sprint_bytes (sample_Sum512 ''[mailto:ops@example.com]''),
                       status_URI = ''https://ca/acct/1'',
                       status_OrdersURL = ''https://ca/acct/1/orders'',
                       status_AccountStatus = ''valid''\<rparr>\<rparr>,
         AccountCredentialsSecretName = ''acme-account''\<rparr>\<rparr>"

definition issuer_erased :: CertIssuer where
  "issuer_erased =
     \<lparr>issuer_Type = ''acme'',
      AcmeCertIssuer =
        \<lparr>DirectoryUrl = ''https://ca/directory'',
         Account = \<lparr>Contacts = [''mailto:ops@example.com''],
                    Account_Status =
                      \<lparr>status_Hash = Sprint_bytes (sample_Sum512 ''[mailto:ops@example.com]''),
                       status_URI = [], status_OrdersURL = [],
                       status_AccountStatus = []\<rparr>\<rparr>,
         AccountCredentialsSecretName = ''acme-account''\<rparr>\<rparr>"

definition issuer_documents :: "(string \<times> CertIssuer) list" where
  "issuer_documents =
     [(''recover'', issuer_recover), (''stored'', issuer_stored), (''erased'', issuer_erased)]"

definition issuer_cm :: "string \<Rightarrow> ConfigMap" where
  "issuer_cm document =
     \<lparr>Name = ''issuer'', Namespace = ''acme'', UID = ''uid-issuer'', ResourceVersion = ''3'',
      Generation = 1, DeletionTimestamp = None, Labels = None, Annotations = None,
      OwnerReferences = [],
      Data = Some [(''cert-issuer.yaml'', document)]\<rparr>"

definition account_secret :: Secret where
  "account_secret =
     \<lparr>Name = ''acme-account'', Namespace = ''acme'', UID = ''uid-secret'',
      ResourceVersion = ''2'', Generation = 0, DeletionTimestamp = None, Labels = None,
      Annotations = None, OwnerReferences = [],
      secret_Type = ''Opaque'', secret_Data = [(''tls.key'', ''ACCOUNT KEY PEM'')]\<rparr>"

definition ca_account :: acme_Account where
  "ca_account = \<lparr>acct_URI = ''https://ca/acct/1'', Contact = [''mailto:ops@example.com''],
     acct_Status = ''valid'', OrdersURL = ''https://ca/acct/1/orders''\<rparr>"

text \<open>The world of the account reconciler: the secret exists and the CA knows the account.\<close>

definition account_world :: "string \<Rightarrow> unit account_collaborators" where
  "account_world document =
     \<lparr>ConfigMaps_GetByKey = (\<lambda>key. if key = ''acme/issuer'' then Inr (Some (issuer_cm document))
                                     else Inr None),
      yaml_Unmarshal = map_of issuer_documents,
      yaml_Marshal = (\<lambda>i. map_of (map (\<lambda>(b, i). (i, b)) issuer_documents) i),
      Secrets_Lister_Get = (\<lambda>namespace name. if name = ''acme-account'' then Inr account_secret
                                               else Inl ApiNotFound),
      PrivateKeyFromSecret = (\<lambda>secret. Inr ''ACCOUNT KEY''),
      account_GenerateKey = (\<lambda>w. (Inr ''NEW KEY'', w)),
      pem_EncodeToMemory = (\<lambda>key. key @ '' PEM''),
      Register = (\<lambda>client account w. (Inr ca_account, w)),
      UpdateReg = (\<lambda>client account w. (Inr ca_account, w)),
      GetReg = (\<lambda>client url w. (Inr ca_account, w)),
      Secrets_Create = (\<lambda>namespace secret w. (Inr secret, w)),
      ConfigMaps_Update = (\<lambda>cm w. (Inr cm, w)),
      sha512_Sum512 = sample_Sum512,
      CertIssuerDataKey = ''cert-issuer.yaml'',
      CertIssuerTypeAcme = ''acme''\<rparr>"

definition sample_client :: acme_Client where
  "sample_client = \<lparr>DirectoryURL = ''https://ca/directory'',
     UserAgent = ''github.com/tnozicka/openshift-acme'', client_Key = ''ACCOUNT KEY''\<rparr>"

section \<open>Evaluation lemmas\<close>

lemma sample_json_roundtrip:
  "Marshal sample_json s = Some b \<Longrightarrow> Unmarshal sample_json b = Some s"
  by (auto simp add: sample_json_def sample_documents_def zero_Status_def status_order_def
      status_order_pending_def status_no_order_def split: if_splits)

lemma map_index_assign: "map_index (map_assign m k v) k = v"
  by (induction m) auto

lemma map_index_absent: "map_of m k = None \<Longrightarrow> map_index m k = []"
  by (induction m) (auto split: if_splits)

lemmas sample_defs =
  sample_world_def sample_rc_def sample_json_def sample_documents_def sample_cert_lib_def
  web_route_def tls_route_def order1_def authz1_def chal_dns_def chal_http_a_def chal_http_b_def
  zero_Status_def status_order_def status_order_pending_def status_no_order_def

lemmas duration_defs = Sub_def quo_def maxDuration_def minDuration_def

section \<open>Renewal policy\<close>

lemma maxDuration_pos: "0 < maxDuration"
  by (simp add: maxDuration_def)

lemma minDuration_neg: "minDuration < 0"
  by (simp add: minDuration_def)

lemma minDuration_le_maxDuration: "minDuration \<le> maxDuration"
  using maxDuration_pos minDuration_neg by linarith

lemma Sub_cases:
  "Sub a b = (if maxDuration < a - b then maxDuration
              else if a - b < minDuration then minDuration else a - b)"
  by (simp add: Sub_def)

lemma Sub_le_max: "Sub a b \<le> max (a - b) minDuration"
  using minDuration_le_maxDuration by (simp add: Sub_cases)

lemma quo_nonneg: "0 \<le> l \<Longrightarrow> 0 < k \<Longrightarrow> quo l k = l div k"
  by (cases "l = 0") (simp_all add: quo_def)

lemma quo_neg: "l < 0 \<Longrightarrow> 0 < k \<Longrightarrow> quo l k = - ((- l) div k)"
  by (simp add: quo_def)

lemma le_div_two: "(r::int) \<le> l div 2 \<longleftrightarrow> 2 * r \<le> l"
  by presburger

lemma le_div_three: "(r::int) \<le> l div 3 \<longleftrightarrow> 3 * r \<le> l"
  by presburger

lemma third_le_quo: "3 * r \<le> l \<Longrightarrow> r \<le> quo l 3"
proof (cases "0 \<le> l")
  case True
  assume "3 * r \<le> l"
  with True show ?thesis by (simp add: quo_nonneg le_div_three)
next
  case False
  assume "3 * r \<le> l"
  then have "r \<le> - ((- l) div 3)" by presburger
  with False show ?thesis by (simp add: quo_neg)
qed

lemma minDuration_le_quo:
  assumes "minDuration \<le> l"
  shows "minDuration \<le> quo l 3"
proof (cases "0 \<le> l")
  case True
  then have "0 \<le> l div 3" by presburger
  with True minDuration_neg show ?thesis by (simp add: quo_nonneg)
next
  case False
  have "l \<le> - ((- l) div 3)" using False by presburger
  with False assms show ?thesis by (simp add: quo_neg)
qed

text \<open>
  When the lifetime does not exceed the largest duration, the exact comparison implies
  the one that \<open>needsCertKey\<close> makes.
\<close>

lemma renewal_period_from_exact:
  assumes fits: "notAfter - notBefore \<le> maxDuration"
    and third: "3 * (notAfter - t) \<le> notAfter - notBefore"
  shows "Sub notAfter t \<le> quo (Sub notAfter notBefore) 3"
proof -
  let ?l = "Sub notAfter notBefore"
  have "minDuration \<le> ?l" and "3 * (notAfter - t) \<le> ?l"
    using fits third by (simp_all add: Sub_cases)
  then have "minDuration \<le> quo ?l 3" and "notAfter - t \<le> quo ?l 3"
    by (simp_all add: minDuration_le_quo third_le_quo)
  then have "max (notAfter - t) minDuration \<le> quo ?l 3"
    by simp
  with Sub_le_max [of notAfter t] show ?thesis
    by (rule order_trans)
qed

text \<open>
  For a lifetime between zero and the largest duration, a comparison of \<open>needsCertKey\<close>
  is the exact one; \<open>k\<close> is 2 or 3 below.
\<close>

lemma Sub_le_div_exact:
  assumes "0 \<le> notAfter - notBefore" and "notAfter - notBefore \<le> maxDuration"
    and exact: "\<And>r. r \<le> (notAfter - notBefore) div k \<longleftrightarrow> k * r \<le> notAfter - notBefore"
    and big: "\<not> k * maxDuration \<le> notAfter - notBefore"
  shows "Sub notAfter t \<le> (notAfter - notBefore) div k
           \<longleftrightarrow> k * (notAfter - t) \<le> notAfter - notBefore"
proof -
  let ?l = "notAfter - notBefore"
  let ?r = "notAfter - t"
  have nonneg: "0 \<le> ?l div k"
    using assms(1) exact [of 0] by simp
  have small: "?l div k < maxDuration"
    using big exact [of maxDuration] by simp
  show ?thesis
  proof (cases "maxDuration < ?r")
    case True
    with small have "\<not> ?r \<le> ?l div k" by simp
    with True small show ?thesis by (simp add: Sub_cases exact [symmetric])
  next
    case False
    show ?thesis
    proof (cases "?r < minDuration")
      case True
      with nonneg minDuration_neg have "?r \<le> ?l div k" by simp
      with True False nonneg minDuration_neg show ?thesis
        by (simp add: Sub_cases exact [symmetric])
    next
      case notlow: False
      with False show ?thesis by (simp add: Sub_cases exact)
    qed
  qed
qed

lemma renewal_period_exact:
  assumes "0 \<le> notAfter - notBefore" and "notAfter - notBefore \<le> maxDuration"
  shows "Sub notAfter t \<le> quo (Sub notAfter notBefore) 3
           \<longleftrightarrow> 3 * (notAfter - t) \<le> notAfter - notBefore"
proof -
  have "Sub notAfter notBefore = notAfter - notBefore"
    using assms minDuration_neg by (simp add: Sub_cases)
  moreover have "\<not> 3 * maxDuration \<le> notAfter - notBefore"
    using assms(2) maxDuration_pos by simp
  ultimately show ?thesis
    using assms Sub_le_div_exact [of notAfter notBefore 3 t]
    by (simp add: quo_nonneg le_div_three)
qed

lemma proactive_period_exact:
  assumes "0 \<le> notAfter - notBefore" and "notAfter - notBefore \<le> maxDuration"
  shows "Sub notAfter t \<le> quo (Sub notAfter notBefore) 2
           \<longleftrightarrow> 2 * (notAfter - t) \<le> notAfter - notBefore"
proof -
  have "Sub notAfter notBefore = notAfter - notBefore"
    using assms minDuration_neg by (simp add: Sub_cases)
  moreover have "\<not> 2 * maxDuration \<le> notAfter - notBefore"
    using assms(2) maxDuration_pos by simp
  ultimately show ?thesis
    using assms Sub_le_div_exact [of notAfter notBefore 2 t]
    by (simp add: quo_nonneg le_div_two)
qed

text \<open>
  With a lifetime of three times 2^63 nanoseconds, and four times 10^18 nanoseconds
  left, less than a third of the lifetime remains; the lifetime saturates, the
  comparison of the renewal period fails and the draw decides.
\<close>

theorem needsCertKey_renewal_period_counterexample:
  "TLS (Spec tls_route) =
     Some \<lparr>Termination = ''edge'', Certificate = ''PEM'', Key = ''KEY'',
            InsecureEdgeTerminationPolicy = ''Redirect''\<rparr>
   \<and> CertPemData_Certificate long_cert_lib ''KEY'' ''PEM'' = Some long_cert
   \<and> VerifyHostname long_cert_lib long_cert (Host (Spec tls_route))
   \<and> IsValid long_cert_lib long_cert 23670116110564327424
   \<and> 3 * (NotAfter long_cert - 23670116110564327424) \<le> NotAfter long_cert - NotBefore long_cert
   \<and> needsCertKey long_cert_lib 23670116110564327424 tls_route = Inr []
   \<and> needsCertKey long_cert_lib_negative 23670116110564327424 tls_route =
       Inr ''Proactive renewal''"
  by (simp add: tls_route_def web_route_def long_cert_lib_negative_def long_cert_lib_def
      long_cert_def sample_cert_lib_def needsCertKey_def duration_defs
      RenewalStandardDeviation_def RenewalMean_def)

text \<open>
  Claim C8, amended. Whenever the certificate of the route decodes, matches the host and
  is valid at \<open>t\<close>, its lifetime \<open>not_after - not_before\<close> does not exceed the largest
  duration (2^63 - 1 nanoseconds), and \<open>not_after - t\<close> is at most a third of the
  lifetime (in exact arithmetic), the reason is \<open>In renewal period\<close>, whatever the
  normal draw would be: the result is the same for every \<open>NormFloat64\<close>.
\<close>

theorem needsCertKey_renewal_period:
  assumes "TLS (Spec route) = Some tls" and "Key tls \<noteq> []" and "Certificate tls \<noteq> []"
    and "CertPemData_Certificate L (Key tls) (Certificate tls) = Some c"
    and "VerifyHostname L c (Host (Spec route))"
    and "IsValid L c t"
    and "NotAfter c - NotBefore c \<le> maxDuration"
    and "3 * (NotAfter c - t) \<le> NotAfter c - NotBefore c"
  shows "needsCertKey (L\<lparr>NormFloat64 := draw\<rparr>) t route = Inr ''In renewal period''"
proof -
  from assms(7,8) have "Sub (NotAfter c) t \<le> quo (Sub (NotAfter c) (NotBefore c)) 3"
    by (rule renewal_period_from_exact)
  with assms(1-6) show ?thesis
    by (simp add: needsCertKey_def)
qed

theorem needsCertKey_renewal_period_witness:
  "needsCertKey (sample_cert_lib\<lparr>NormFloat64 := (\<lambda>t. - 1)\<rparr>) 250 tls_route =
     Inr ''In renewal period''"
  using needsCertKey_renewal_period [where route = tls_route
      and tls = "\<lparr>Termination = ''edge'', Certificate = ''PEM'', Key = ''KEY'',
                    InsecureEdgeTerminationPolicy = ''Redirect''\<rparr>"
      and L = sample_cert_lib and c = "\<lparr>NotBefore = 0, NotAfter = 300\<rparr>" and t = 250
      and draw = "\<lambda>t. - 1"]
  by (simp add: tls_route_def web_route_def sample_cert_lib_def maxDuration_def)

text \<open>
  An unexpired certificate with the right host still gets a reason: at 250 the sample
  certificate, valid from 0 to 300, is in its last third.
\<close>

theorem needsCertKey_unexpired_counterexample:
  "TLS (Spec tls_route) =
     Some \<lparr>Termination = ''edge'', Certificate = ''PEM'', Key = ''KEY'',
            InsecureEdgeTerminationPolicy = ''Redirect''\<rparr>
   \<and> CertPemData_Certificate sample_cert_lib ''KEY'' ''PEM'' =
       Some \<lparr>NotBefore = 0, NotAfter = 300\<rparr>
   \<and> VerifyHostname sample_cert_lib \<lparr>NotBefore = 0, NotAfter = 300\<rparr> (Host (Spec tls_route))
   \<and> IsValid sample_cert_lib \<lparr>NotBefore = 0, NotAfter = 300\<rparr> 250
   \<and> needsCertKey sample_cert_lib 250 tls_route = Inr ''In renewal period''"
  by (simp add: tls_route_def web_route_def sample_cert_lib_def needsCertKey_def duration_defs)

text \<open>The result of \<open>needsCertKey\<close> in the durations it computes.\<close>

lemma needsCertKey_no_reason_durations:
  assumes "TLS (Spec route) = Some tls" and "Key tls \<noteq> []" and "Certificate tls \<noteq> []"
    and "CertPemData_Certificate L (Key tls) (Certificate tls) = Some c"
    and "VerifyHostname L c (Host (Spec route))"
    and "IsValid L c t"
  shows "needsCertKey L t route = Inr [] \<longleftrightarrow>
           \<not> Sub (NotAfter c) t \<le> quo (Sub (NotAfter c) (NotBefore c)) 3
           \<and> (\<not> Sub (NotAfter c) t \<le> quo (Sub (NotAfter c) (NotBefore c)) 2
                \<or> 0 \<le> NormFloat64 L t)"
  using assms
  by (auto simp add: needsCertKey_def Let_def RenewalStandardDeviation_def RenewalMean_def)

text \<open>
  Claim C5, amended. For a route whose TLS fields are non-empty, whose certificate
  decodes, matches the host and is valid at \<open>t\<close>, and whose lifetime
  \<open>not_after - not_before\<close> lies between zero and the largest duration (2^63 - 1
  nanoseconds), \<open>needsCertKey\<close> returns no reason and no error exactly when
  \<open>not_after - t\<close> is more than a third of the lifetime and, besides, either more than
  half of it or the normal draw seeded from \<open>t\<close> is not negative (exact arithmetic).
\<close>

theorem needsCertKey_no_reason_iff:
  assumes "TLS (Spec route) = Some tls" and "Key tls \<noteq> []" and "Certificate tls \<noteq> []"
    and "CertPemData_Certificate L (Key tls) (Certificate tls) = Some c"
    and "VerifyHostname L c (Host (Spec route))"
    and "IsValid L c t"
    and "0 \<le> NotAfter c - NotBefore c"
    and "NotAfter c - NotBefore c \<le> maxDuration"
  shows "needsCertKey L t route = Inr [] \<longleftrightarrow>
           NotAfter c - NotBefore c < 3 * (NotAfter c - t)
           \<and> (NotAfter c - NotBefore c < 2 * (NotAfter c - t) \<or> 0 \<le> NormFloat64 L t)"
  unfolding needsCertKey_no_reason_durations [OF assms(1-6)]
    renewal_period_exact [OF assms(7,8)] proactive_period_exact [OF assms(7,8)]
  by (simp add: not_le)

theorem needsCertKey_no_reason_iff_witness:
  "needsCertKey sample_cert_lib 170 tls_route = Inr []"
  using needsCertKey_no_reason_iff [where route = tls_route
      and tls = "\<lparr>Termination = ''edge'', Certificate = ''PEM'', Key = ''KEY'',
                    InsecureEdgeTerminationPolicy = ''Redirect''\<rparr>"
      and L = sample_cert_lib and c = "\<lparr>NotBefore = 0, NotAfter = 300\<rparr>" and t = 170]
  by (simp add: tls_route_def web_route_def sample_cert_lib_def maxDuration_def)

section \<open>Status codec\<close>

text \<open>
  Claim C9. With a JSON codec that decodes what it encodes, a status \<open>x\<close> written by
  \<open>setStatus\<close> is read back by \<open>getStatus\<close> as \<open>x\<close> with the observed generation set to
  the generation of the route, and nothing else changed.
\<close>

theorem getStatus_setStatus:
  assumes codec: "\<And>s b. Marshal J s = Some b \<Longrightarrow> Unmarshal J b = Some s"
    and set: "setStatus J ann route x = Inr (route', x')"
  shows "getStatus J ann route' = Inr (x\<lparr>ObservedGeneration := Generation route\<rparr>)"
proof -
  let ?y = "x\<lparr>ObservedGeneration := Generation route\<rparr>"
  from set obtain b where b: "Marshal J ?y = Some b"
    and r: "route' = SetMetaDataAnnotation route ann b"
    by (auto simp add: setStatus_def Let_def split: option.splits)
  from codec [OF b] have "Unmarshal J b = Some ?y" .
  then show ?thesis
    by (simp add: r getStatus_def SetMetaDataAnnotation_def map_index_assign)
qed

theorem getStatus_setStatus_witness:
  "setStatus sample_json ''acme.openshift.io/status'' web_route
      (status_order\<lparr>ObservedGeneration := 0\<rparr>) =
     Inr (SetMetaDataAnnotation web_route ''acme.openshift.io/status''
            ''{\"observedGeneration\":1,\"provisioningStatus\":{\"orderUri\":\"https://ca/order/1\"}}'',
          status_order)
   \<and> getStatus sample_json ''acme.openshift.io/status''
         (SetMetaDataAnnotation web_route ''acme.openshift.io/status''
            ''{\"observedGeneration\":1,\"provisioningStatus\":{\"orderUri\":\"https://ca/order/1\"}}'') =
       Inr status_order"
proof -
  have set: "setStatus sample_json ''acme.openshift.io/status'' web_route
      (status_order\<lparr>ObservedGeneration := 0\<rparr>) =
     Inr (SetMetaDataAnnotation web_route ''acme.openshift.io/status''
            ''{\"observedGeneration\":1,\"provisioningStatus\":{\"orderUri\":\"https://ca/order/1\"}}'',
          status_order)"
    by (simp add: setStatus_def sample_json_def sample_documents_def status_order_def
        web_route_def zero_Status_def status_order_pending_def status_no_order_def)
  from getStatus_setStatus [OF sample_json_roundtrip set] set show ?thesis
    by (simp add: status_order_def web_route_def)
qed

text \<open>
  Claim C4. On a route that has annotations but not the status annotation, \<open>getStatus\<close>
  hands the empty string to the decoder; \<open>json.Unmarshal\<close> rejects the empty input, and
  \<open>getStatus\<close> fails where the claim has it return the zero status.
\<close>

theorem getStatus_other_annotations_fails:
  assumes "Unmarshal J [] = None"
    and "Annotations route = Some annotations"
    and "map_of annotations ann = None"
  shows "getStatus J ann route = Inl CantDecodeStatus"
  using assms by (simp add: getStatus_def map_index_absent)

theorem getStatus_other_annotations_fails_witness:
  "getStatus sample_json ''acme.openshift.io/status''
     (web_route\<lparr>Annotations := Some [(''kubernetes.io/tls-acme'', ''true'')]\<rparr>) =
   Inl CantDecodeStatus"
  using getStatus_other_annotations_fails [where J = sample_json
      and route = "web_route\<lparr>Annotations := Some [(''kubernetes.io/tls-acme'', ''true'')]\<rparr>"
      and annotations = "[(''kubernetes.io/tls-acme'', ''true'')]"
      and ann = "''acme.openshift.io/status''"]
  by (simp add: sample_json_def sample_documents_def)

section \<open>Endpoint reconciler\<close>

text \<open>
  Claim C1. For an admitted route that is not being deleted, whose status has no
  provisioning status and for which the renewal policy gives a reason, the handler calls
  \<open>AuthorizeOrder\<close> for the host; when the CA answers with an order, the handler then
  assigns through the nil \<open>ProvisioningStatus\<close> pointer and panics. Nothing is persisted:
  the trace ends with \<open>AuthorizeOrder\<close>.
\<close>

theorem handle_nil_status_panics:
  assumes "SplitMetaNamespaceKey key = Inr namespace"
    and "GetByKey A key = Inr (Some route)"
    and "DeletionTimestamp route = None"
    and "IsAdmitted A route"
    and "GetClient A = None"
    and "getStatus (json rc) (AcmeStatusAnnotation rc) route = Inr status"
    and "ProvisioningStatus status = None"
    and "Now A w = (t, w1)"
    and "needsCertKey (certs rc) t route = Inr reason"
    and "reason \<noteq> []"
    and "AuthorizeOrder A (Host (Spec route)) w1 = (Inr order, w2)"
    and "Now A w2 = (t', w3)"
  shows "handle A rc key (w, tr) = (Panicked, w3, tr @ [Call_AuthorizeOrder (Host (Spec route))])"
  using assms
  by (simp add: handle_def handle_status_def handle_new_order_def bnd_def ret_def perform_def
      step_def Let_def)

theorem handle_nil_status_panics_witness:
  "handle sample_world sample_rc ''acme/web'' (50, []) =
     (Panicked, 50, [Call_AuthorizeOrder ''www.example.com''])"
  using handle_nil_status_panics [where key = "''acme/web''" and namespace = "''acme''"
      and A = sample_world and route = web_route and rc = sample_rc and status = zero_Status
      and w = 50 and t = 50 and ?w1.0 = 50 and reason = "''Route is missing CertKey''"
      and order = order1 and ?w2.0 = 50 and t' = 50 and ?w3.0 = 50 and tr = "[]"]
  by (simp add: sample_defs SplitMetaNamespaceKey_def getStatus_def needsCertKey_def)

lemmas handle_defs =
  handle_def handle_status_def handle_new_order_def handle_existing_order_def handle_order_def
  handle_authorization_def handle_challenge_def handle_exposerRoute_def handle_exposerRS_def
  handle_exposerService_def adopt_exposerRoute_def adopt_exposerRS_def adopt_exposerService_def
  RetryOnConflict_def updateStatus_def getStatus_def setStatus_def SetMetaDataAnnotation_def
  needsCertKey_def SplitMetaNamespaceKey_def bnd_def ret_def perform_def step_def note_call_def
  desiredExposerRoute_def desiredExposerRS_def desiredExposerService_def
  ownerRefToExposerRoute_def getTemporaryName_def IsControlledBy_def GetControllerOf_def
  IsAlreadyExists_def IsConflict_def
  StatusPending_def StatusProcessing_def StatusValid_def StatusInvalid_def StatusReady_def
  StatusDeactivated_def StatusExpired_def StatusRevoked_def StatusNotFound_def

lemmas world_defs =
  pending_world_def lost_order_world_def second_pass_world_def order_route_def tmpName1_def
  exposerRoute1_def exposerRS1_def exposerService1_def

text \<open>
  Claim C7. When the fetch of the order on record fails, the handler writes the status
  with an empty order URI (through \<open>updateStatus\<close>) exactly when the error is an ACME
  error with status 404; every other error is returned as it is, and the fetch is the
  last call of the invocation.
\<close>

theorem handle_GetOrder_error:
  assumes "SplitMetaNamespaceKey key = Inr namespace"
    and "GetByKey A key = Inr (Some route)"
    and "DeletionTimestamp route = None"
    and "IsAdmitted A route"
    and "GetClient A = None"
    and "getStatus (json rc) (AcmeStatusAnnotation rc) route = Inr status"
    and "ProvisioningStatus status = Some ps"
    and "OrderUri ps \<noteq> []"
    and "Now A w = (t, w1)"
    and "\<not> t > StartedAt ps + orderTimeout rc"
    and "GetOrder A (OrderUri ps) w1 = (Inl err, w2)"
  shows "handle A rc key (w, tr) =
           (if as_acme_Error err = Some 404
            then updateStatus A rc route
                   (status\<lparr>ProvisioningStatus := Some (ps\<lparr>OrderUri := []\<rparr>)\<rparr>)
                   (w2, tr @ [Call_GetOrder (OrderUri ps)])
            else (Returned (Some err), w2, tr @ [Call_GetOrder (OrderUri ps)]))"
  using assms
  by (simp add: handle_def handle_status_def handle_existing_order_def bnd_def ret_def
      perform_def step_def StatusNotFound_def split: option.splits)

theorem handle_GetOrder_error_witness:
  "handle lost_order_world sample_rc ''acme/web'' (150, []) =
     (Returned None, 150,
      [Call_GetOrder ''https://ca/order/1'',
       Call_Routes_Update (web_route\<lparr>Annotations := Some [(''acme.openshift.io/status'',
          ''{\"observedGeneration\":1,\"provisioningStatus\":{\"orderUri\":\"\"}}'')]\<rparr>)])"
  using handle_GetOrder_error [where key = "''acme/web''" and namespace = "''acme''"
      and A = lost_order_world and route = order_route and rc = sample_rc
      and status = status_order
      and ps = "\<lparr>StartedAt = 100, OrderUri = ''https://ca/order/1'', OrderStatus = []\<rparr>"
      and w = 150 and t = 150 and ?w1.0 = 150 and err = "AcmeError 404" and ?w2.0 = 150
      and tr = "[]"]
  by (simp add: sample_defs world_defs SplitMetaNamespaceKey_def getStatus_def updateStatus_def
      setStatus_def SetMetaDataAnnotation_def bnd_def ret_def perform_def)

text \<open>
  The first challenge of type http-01 is not the one the handler takes: of two such
  challenges of a pending authorization it exposes and accepts the second.
\<close>

theorem select_challenge_first_counterexample:
  "authz_Status authz1 = ''pending''
   \<and> find (\<lambda>c. chal_Type c = ''http-01'') (Challenges authz1) = Some chal_http_a
   \<and> chal_http_a \<noteq> chal_http_b
   \<and> handle_authorization sample_world sample_rc web_route order1 ''https://ca/authz/1''
         (150, []) =
       (None, 150,
        [Call_GetAuthorization ''https://ca/authz/1'',
         Call_Routes_Create
           (desiredExposerRoute sample_world sample_rc web_route tmpName1 chal_http_b),
         Call_ReplicaSets_Create
           (desiredExposerRS sample_rc
              ((desiredExposerRoute sample_world sample_rc web_route tmpName1 chal_http_b)
                 \<lparr>UID := ''uid-exposer''\<rparr>) tmpName1),
         Call_Services_Create
           (desiredExposerService sample_rc
              ((desiredExposerRoute sample_world sample_rc web_route tmpName1 chal_http_b)
                 \<lparr>UID := ''uid-exposer''\<rparr>) tmpName1),
         Call_Accept chal_http_b])"
  by (simp add: sample_defs world_defs handle_defs Let_def)

lemma select_challenge_last:
  "select_challenge challenge cs =
     (case filter (\<lambda>c. chal_Type c = ''http-01'') cs of
        [] \<Rightarrow> challenge
      | c # fs \<Rightarrow> Some (last (c # fs)))"
  by (induction cs arbitrary: challenge) (auto split: list.splits)

text \<open>
  Claim C3, amended. For a pending authorization with at least one challenge of type
  http-01, the challenge that the handler goes on with (the one it exposes and accepts)
  is the last challenge of that type in the list.
\<close>

theorem handle_authorization_last_http01:
  assumes "GetAuthorization A authzUrl w = (Inr authz, w1)"
    and "authz_Status authz = StatusPending"
    and "filter (\<lambda>c. chal_Type c = ''http-01'') (Challenges authz) \<noteq> []"
  shows "select_challenge None (Challenges authz) =
           Some (last (filter (\<lambda>c. chal_Type c = ''http-01'') (Challenges authz)))
         \<and> handle_authorization A rc routeReadOnly order authzUrl (w, tr) =
             handle_challenge A rc routeReadOnly order authzUrl
               (last (filter (\<lambda>c. chal_Type c = ''http-01'') (Challenges authz)))
               (w1, tr @ [Call_GetAuthorization authzUrl])"
proof -
  from assms(3) have sel: "select_challenge None (Challenges authz) =
      Some (last (filter (\<lambda>c. chal_Type c = ''http-01'') (Challenges authz)))"
    by (simp add: select_challenge_last split: list.splits)
  with assms(1,2) show ?thesis
    by (simp add: handle_authorization_def bnd_def perform_def)
qed

theorem handle_authorization_last_http01_witness:
  "select_challenge None (Challenges authz1) = Some chal_http_b
   \<and> handle_authorization sample_world sample_rc web_route order1 ''https://ca/authz/1''
         (150, []) =
       handle_challenge sample_world sample_rc web_route order1 ''https://ca/authz/1''
         chal_http_b (150, [Call_GetAuthorization ''https://ca/authz/1''])"
  using handle_authorization_last_http01 [where A = sample_world
      and authzUrl = "''https://ca/authz/1''" and w = 150 and authz = authz1 and ?w1.0 = 150
      and rc = sample_rc and routeReadOnly = web_route and order = order1 and tr = "[]"]
  by (simp add: sample_world_def authz1_def chal_dns_def chal_http_a_def chal_http_b_def
      StatusPending_def)

lemma GetControllerOf_own_exposer_object:
  "OwnerReferences obj = [ownerRefToExposerRoute exposerRoute] \<Longrightarrow> GetControllerOf obj = None"
  by (simp add: GetControllerOf_def ownerRefToExposerRoute_def)

text \<open>
  What decides the adoption of an existing replica set is the controller reference to
  the parent route, not to the responder route.
\<close>

lemma handle_exposerRS_exists:
  assumes "ReplicaSets_Create A (desiredExposerRS rc exposerRoute tmpName) w =
             (Inl ApiAlreadyExists, w1)"
    and "ReplicaSets_Get A tmpName w1 = (Inr existing, w2)"
    and "\<not> IsControlledBy existing routeReadOnly"
  shows "handle_exposerRS A rc routeReadOnly exposerRoute tmpName (w, tr) =
           (Inl ExposerReplicaSetCollision, w2,
            tr @ [Call_ReplicaSets_Create (desiredExposerRS rc exposerRoute tmpName),
                  Call_ReplicaSets_Get tmpName])"
proof -
  have name: "Name (desiredExposerRS rc exposerRoute tmpName) = tmpName"
    by (simp add: desiredExposerRS_def)
  show ?thesis
    using assms
    by (simp add: handle_exposerRS_def RetryOnConflict_def adopt_exposerRS_def name Let_def
        bnd_def ret_def perform_def IsAlreadyExists_def IsConflict_def)
qed

lemma handle_exposerService_exists:
  assumes "Services_Create A (desiredExposerService rc exposerRoute tmpName) w =
             (Inl ApiAlreadyExists, w1)"
    and "Services_Get A tmpName w1 = (Inr existing, w2)"
    and "\<not> IsControlledBy existing routeReadOnly"
  shows "handle_exposerService A rc routeReadOnly exposerRoute tmpName (w, tr) =
           (Inl ExposerServiceCollision, w2,
            tr @ [Call_Services_Create (desiredExposerService rc exposerRoute tmpName),
                  Call_Services_Get tmpName])"
proof -
  have name: "Name (desiredExposerService rc exposerRoute tmpName) = tmpName"
    by (simp add: desiredExposerService_def)
  show ?thesis
    using assms
    by (simp add: handle_exposerService_def RetryOnConflict_def adopt_exposerService_def name
        Let_def bnd_def ret_def perform_def IsAlreadyExists_def IsConflict_def)
qed

text \<open>
  An existing replica set that the parent route controls is updated, whatever its
  relation to the responder route.
\<close>

lemma handle_exposerRS_parent_controlled:
  assumes "ReplicaSets_Create A (desiredExposerRS rc exposerRoute tmpName) w =
             (Inl ApiAlreadyExists, w1)"
    and "ReplicaSets_Get A tmpName w1 = (Inr existing, w2)"
    and "IsControlledBy existing routeReadOnly"
    and "ReplicaSets_Update A
           ((desiredExposerRS rc exposerRoute tmpName)
              \<lparr>ResourceVersion := ResourceVersion existing\<rparr>) w2 = (Inr updated, w3)"
  shows "handle_exposerRS A rc routeReadOnly exposerRoute tmpName (w, tr) =
           (Inr updated, w3,
            tr @ [Call_ReplicaSets_Create (desiredExposerRS rc exposerRoute tmpName),
                  Call_ReplicaSets_Get tmpName,
                  Call_ReplicaSets_Update
                    ((desiredExposerRS rc exposerRoute tmpName)
                       \<lparr>ResourceVersion := ResourceVersion existing\<rparr>)])"
proof -
  have name: "Name (desiredExposerRS rc exposerRoute tmpName) = tmpName"
    by (simp add: desiredExposerRS_def)
  show ?thesis
    using assms
    by (simp add: handle_exposerRS_def RetryOnConflict_def adopt_exposerRS_def name Let_def
        bnd_def ret_def perform_def IsAlreadyExists_def IsConflict_def)
qed

text \<open>
  Claim C6. When the replica set (respectively the service) of an exposer triple exists
  already, the handler checks it against the parent route, not against the responder
  route: an existing object of which the responder route is the controller is refused
  with a collision error, and not updated, whenever the responder route is not the
  parent route.
\<close>

theorem handle_exposer_responder_owned_collides:
  assumes "UID exposerRoute \<noteq> UID routeReadOnly"
    and "ReplicaSets_Create A (desiredExposerRS rc exposerRoute tmpName) w =
           (Inl ApiAlreadyExists, w1)"
    and "ReplicaSets_Get A tmpName w1 = (Inr existingRS, w2)"
    and "IsControlledBy existingRS exposerRoute"
    and "Services_Create A (desiredExposerService rc exposerRoute tmpName) v =
           (Inl ApiAlreadyExists, v1)"
    and "Services_Get A tmpName v1 = (Inr existingService, v2)"
    and "IsControlledBy existingService exposerRoute"
  shows "handle_exposerRS A rc routeReadOnly exposerRoute tmpName (w, tr) =
           (Inl ExposerReplicaSetCollision, w2,
            tr @ [Call_ReplicaSets_Create (desiredExposerRS rc exposerRoute tmpName),
                  Call_ReplicaSets_Get tmpName])
         \<and> handle_exposerService A rc routeReadOnly exposerRoute tmpName (v, tr') =
             (Inl ExposerServiceCollision, v2,
              tr' @ [Call_Services_Create (desiredExposerService rc exposerRoute tmpName),
                     Call_Services_Get tmpName])"
proof -
  from assms(1,4) have "\<not> IsControlledBy existingRS routeReadOnly"
    by (auto simp add: IsControlledBy_def split: option.splits)
  moreover from assms(1,7) have "\<not> IsControlledBy existingService routeReadOnly"
    by (auto simp add: IsControlledBy_def split: option.splits)
  ultimately show ?thesis
    using assms(2,3,5,6)
    by (simp add: handle_exposerRS_exists handle_exposerService_exists)
qed

theorem handle_exposer_responder_owned_collides_witness:
  "IsControlledBy controlledRS1 exposerRoute1
   \<and> IsControlledBy controlledService1 exposerRoute1
   \<and> handle_exposerRS adoption_world sample_rc order_route exposerRoute1 tmpName1 (150, []) =
       (Inl ExposerReplicaSetCollision, 150,
        [Call_ReplicaSets_Create (desiredExposerRS sample_rc exposerRoute1 tmpName1),
         Call_ReplicaSets_Get tmpName1])
   \<and> handle_exposerService adoption_world sample_rc order_route exposerRoute1 tmpName1
         (150, []) =
       (Inl ExposerServiceCollision, 150,
        [Call_Services_Create (desiredExposerService sample_rc exposerRoute1 tmpName1),
         Call_Services_Get tmpName1])"
  using handle_exposer_responder_owned_collides [where exposerRoute = exposerRoute1
      and routeReadOnly = order_route and A = adoption_world and rc = sample_rc
      and tmpName = tmpName1 and w = 150 and ?w1.0 = 150 and existingRS = controlledRS1
      and ?w2.0 = 150 and v = 150 and ?v1.0 = 150 and existingService = controlledService1
      and ?v2.0 = 150 and tr = "[]" and tr' = "[]"]
  by (simp add: adoption_world_def second_pass_world_def pending_world_def sample_world_def
      controlledRS1_def controlledService1_def controllerRefToExposerRoute1_def
      exposerRS1_def exposerService1_def exposerRoute1_def ownerRefToExposerRoute_def
      desiredExposerRS_def desiredExposerService_def desiredExposerRoute_def order_route_def
      web_route_def IsControlledBy_def GetControllerOf_def)

text \<open>
  The whole handler in that world: the responder route is adopted, the replica set of
  which it is the controller is refused, and nothing is updated after the responder
  route.
\<close>

lemma handle_adoption_collides:
  "fst (handle adoption_world sample_rc ''acme/web'' (150, [])) =
     Returned (Some ExposerReplicaSetCollision)"
  by (simp add: sample_defs world_defs adoption_world_def controlledRS1_def
      controlledService1_def controllerRefToExposerRoute1_def handle_defs Let_def)

text \<open>
  In the other direction, a replica set of which the parent route is the controller,
  and the responder route is not, is updated.
\<close>

lemma handle_exposerRS_parent_controlled_example:
  "\<not> IsControlledBy (exposerRS1\<lparr>OwnerReferences := OwnerReferences exposerRoute1\<rparr>) exposerRoute1
   \<and> handle_exposerRS
         (second_pass_world\<lparr>ReplicaSets_Get :=
            (\<lambda>name w. (Inr (exposerRS1\<lparr>OwnerReferences := OwnerReferences exposerRoute1\<rparr>), w))\<rparr>)
         sample_rc order_route exposerRoute1 tmpName1 (150, []) =
       (Inr ((desiredExposerRS sample_rc exposerRoute1 tmpName1)\<lparr>ResourceVersion := ''9''\<rparr>), 150,
        [Call_ReplicaSets_Create (desiredExposerRS sample_rc exposerRoute1 tmpName1),
         Call_ReplicaSets_Get tmpName1,
         Call_ReplicaSets_Update
           ((desiredExposerRS sample_rc exposerRoute1 tmpName1)\<lparr>ResourceVersion := ''9''\<rparr>)])"
  by (simp add: sample_defs world_defs handle_defs Let_def)

text \<open>
  The second pass of the handler over a pending challenge: the responder route is
  adopted, the replica set that the first pass created is refused.
\<close>

lemma handle_second_pass_collides:
  "fst (handle second_pass_world sample_rc ''acme/web'' (150, [])) =
     Returned (Some ExposerReplicaSetCollision)"
  by (simp add: sample_defs world_defs handle_defs Let_def)

text \<open>
  The branch of a new order does persist the order when the provisioning status is
  there and only its order URI is empty.
\<close>

lemma handle_empty_order_uri_persists:
  "handle no_order_world sample_rc ''acme/web'' (100, []) =
     (Returned None, 100, [Call_AuthorizeOrder ''www.example.com'', Call_Routes_Update order_route])"
  by (simp add: sample_defs world_defs no_order_world_def no_order_route_def handle_defs Let_def)

section \<open>Account reconciler\<close>

lemmas sync_defs =
  sync_def sync_acme_def sync_existing_def sync_register_def sync_write_back_def
  merge_account_def hashAccount_def map_index_ok_def SplitMetaNamespaceKey_def IsNotFound_def
  Sprint_strings_def bnd_def ret_def perform_def step_def

lemmas account_defs =
  account_world_def issuer_cm_def issuer_documents_def issuer_recover_def issuer_stored_def
  issuer_erased_def account_secret_def ca_account_def sample_client_def

text \<open>
  The array that \<open>hashAccount\<close> returns and the slice made of the stored hash are never
  deeply equal, so the branch of \<open>UpdateReg\<close> is dead.
\<close>

lemma sync_existing_no_UpdateReg:
  "sync_existing A secret acmeIssuer client account s =
     (case PrivateKeyFromSecret A secret of
        Inl err \<Rightarrow> (Inl err, s)
      | Inr key \<Rightarrow>
          if status_URI (Account_Status (Account acmeIssuer)) = []
          then perform (Call_GetReg (client\<lparr>client_Key := key\<rparr>) [])
                 (GetReg A (client\<lparr>client_Key := key\<rparr>) []) s
          else (Inr account, s))"
  by (simp add: sync_existing_def Let_def ret_def split: sum.splits)

text \<open>
  Claim C2. With the secret found and its key decoded, a stored hash that equals the
  SHA-512 hash of the contacts does not lead to \<open>UpdateReg\<close>: the handler calls \<open>GetReg\<close>
  when the stored URI is empty and makes no call otherwise.
\<close>

theorem sync_existing_equal_hash:
  assumes "PrivateKeyFromSecret A secret = Inr key"
    and "status_Hash (Account_Status (Account acmeIssuer)) = hashAccount A (Account acmeIssuer)"
  shows "sync_existing A secret acmeIssuer client account (w, tr) =
           (if status_URI (Account_Status (Account acmeIssuer)) = []
            then (fst (GetReg A (client\<lparr>client_Key := key\<rparr>) [] w),
                  snd (GetReg A (client\<lparr>client_Key := key\<rparr>) [] w),
                  tr @ [Call_GetReg (client\<lparr>client_Key := key\<rparr>) []])
            else (Inr account, w, tr))"
  using assms(1)
  by (simp add: sync_existing_no_UpdateReg perform_def split: prod.splits)

theorem sync_existing_equal_hash_witness:
  "status_Hash (Account_Status (Account (AcmeCertIssuer issuer_recover))) =
     hashAccount (account_world ''recover'') (Account (AcmeCertIssuer issuer_recover))
   \<and> sync_existing (account_world ''recover'') account_secret (AcmeCertIssuer issuer_recover)
         (sample_client\<lparr>client_Key := []\<rparr>)
         \<lparr>acct_URI = [], Contact = [''mailto:ops@example.com''], acct_Status = [],
            OrdersURL = []\<rparr> ((), []) =
       (Inr ca_account, (), [Call_GetReg sample_client []])"
  using sync_existing_equal_hash [where A = "account_world ''recover''"
      and secret = account_secret and key = "''ACCOUNT KEY''"
      and acmeIssuer = "AcmeCertIssuer issuer_recover"
      and client = "sample_client\<lparr>client_Key := []\<rparr>"
      and account = "\<lparr>acct_URI = [], Contact = [''mailto:ops@example.com''], acct_Status = [],
            OrdersURL = []\<rparr>" and w = "()" and tr = "[]"]
  by (simp add: account_defs hashAccount_def Sprint_strings_def sample_Sum512_def)

text \<open>
  The whole handler on the issuer whose stored hash equals the hash of its contacts:
  \<open>GetReg\<close> is the only account call.
\<close>

lemma sync_equal_hash_calls_GetReg:
  "sync (account_world ''recover'') ''acme/issuer'' ((), []) =
     (Returned None, (),
      [Call_GetReg sample_client [], Call_ConfigMaps_Update (issuer_cm ''stored'')])"
  by (simp add: sync_defs account_defs Let_def sample_Sum512_def)

lemma sync_write_back_trace:
  "filter is_account_call (snd (snd (sync_write_back A cm issuer (w, tr)))) =
     filter is_account_call tr"
  by (simp add: sync_write_back_def Let_def bnd_def ret_def perform_def
      split: option.splits prod.splits sum.splits)

text \<open>
  Claim C10. With the secret found and its key decoded, an invocation that makes no
  account call (no \<open>Register\<close>, \<open>UpdateReg\<close> or \<open>GetReg\<close>) still merges the account it
  started from into the status: what is written back has an empty URI, an empty orders
  URL and an empty account status, while the stored URI was not empty.
\<close>

theorem sync_no_call_erases_status:
  assumes "SplitMetaNamespaceKey key = Inr namespace"
    and "ConfigMaps_GetByKey A key = Inr (Some cmReadOnly)"
    and "DeletionTimestamp cmReadOnly = None"
    and "map_index_ok (Data cmReadOnly) (CertIssuerDataKey A) = Some certIssuerData"
    and "yaml_Unmarshal A certIssuerData = Some certIssuer"
    and "issuer_Type certIssuer = CertIssuerTypeAcme A"
    and "Secrets_Lister_Get A (Namespace cmReadOnly)
           (if AccountCredentialsSecretName (AcmeCertIssuer certIssuer) = []
            then Name cmReadOnly
            else AccountCredentialsSecretName (AcmeCertIssuer certIssuer)) = Inr secret"
    and "PrivateKeyFromSecret A secret = Inr privateKey"
    and "filter is_account_call (snd (snd (sync A key (w, [])))) = []"
  shows "status_URI (Account_Status (Account (AcmeCertIssuer certIssuer))) \<noteq> []
         \<and> (\<exists>written.
               sync A key (w, []) =
                 sync_write_back A cmReadOnly (certIssuer\<lparr>AcmeCertIssuer := written\<rparr>) (w, [])
               \<and> status_URI (Account_Status (Account written)) = []
               \<and> status_OrdersURL (Account_Status (Account written)) = []
               \<and> status_AccountStatus (Account_Status (Account written)) = []
               \<and> Contacts (Account written) = Contacts (Account (AcmeCertIssuer certIssuer)))"
proof -
  let ?given = "AcmeCertIssuer certIssuer"
  let ?issuer = "if AccountCredentialsSecretName ?given = []
    then ?given\<lparr>AccountCredentialsSecretName := Name cmReadOnly\<rparr> else ?given"
  let ?account = "\<lparr>acct_URI = [], Contact = Contacts (Account ?given), acct_Status = [],
    OrdersURL = []\<rparr>"
  have secret: "Secrets_Lister_Get A (Namespace cmReadOnly)
      (AccountCredentialsSecretName ?issuer) = Inr secret"
    using assms(7) by (simp split: if_splits)
  have acme: "sync A key (w, []) =
      bnd (sync_existing A secret ?issuer
             \<lparr>DirectoryURL = DirectoryUrl ?given,
                UserAgent = ''github.com/tnozicka/openshift-acme'', client_Key = []\<rparr> ?account)
        (\<lambda>r. case r of
           Inl err \<Rightarrow> ret (Returned (Some err))
         | Inr account' \<Rightarrow>
             sync_write_back A cmReadOnly
               (certIssuer\<lparr>AcmeCertIssuer := merge_account A ?issuer account'\<rparr>)) (w, [])"
    using assms(1-6) secret
    by (cases "AccountCredentialsSecretName ?given = []")
      (simp_all add: sync_def sync_acme_def Let_def)
  have uri: "status_URI (Account_Status (Account ?given)) \<noteq> []"
  proof
    assume empty: "status_URI (Account_Status (Account ?given)) = []"
    have "filter is_account_call (snd (snd (sync A key (w, [])))) \<noteq> []"
      using assms(8) empty
      by (simp add: acme sync_existing_no_UpdateReg bnd_def ret_def perform_def
          sync_write_back_trace split: prod.splits sum.splits)
    with assms(9) show False by simp
  qed
  let ?written = "merge_account A ?issuer ?account"
  have "sync A key (w, []) =
      sync_write_back A cmReadOnly (certIssuer\<lparr>AcmeCertIssuer := ?written\<rparr>) (w, [])"
    using assms(8) uri
    by (simp add: acme sync_existing_no_UpdateReg bnd_def)
  moreover have "status_URI (Account_Status (Account ?written)) = []"
    and "status_OrdersURL (Account_Status (Account ?written)) = []"
    and "status_AccountStatus (Account_Status (Account ?written)) = []"
    and "Contacts (Account ?written) = Contacts (Account ?given)"
    by (simp_all add: merge_account_def Let_def)
  ultimately show ?thesis using uri by blast
qed

lemma sync_stored_evaluated:
  "sync (account_world ''stored'') ''acme/issuer'' ((), []) =
     (Returned None, (), [Call_ConfigMaps_Update (issuer_cm ''erased'')])"
  by (simp add: sync_defs account_defs Let_def sample_Sum512_def Sprint_bytes_def)

theorem sync_no_call_erases_status_witness:
  "status_URI (Account_Status (Account (AcmeCertIssuer issuer_stored))) = ''https://ca/acct/1''
   \<and> sync (account_world ''stored'') ''acme/issuer'' ((), []) =
       (Returned None, (), [Call_ConfigMaps_Update (issuer_cm ''erased'')])
   \<and> status_URI (Account_Status (Account (AcmeCertIssuer issuer_erased))) = []
   \<and> (\<exists>written.
         sync (account_world ''stored'') ''acme/issuer'' ((), []) =
           sync_write_back (account_world ''stored'') (issuer_cm ''stored'')
             (issuer_stored\<lparr>AcmeCertIssuer := written\<rparr>) ((), [])
         \<and> status_URI (Account_Status (Account written)) = []
         \<and> status_OrdersURL (Account_Status (Account written)) = []
         \<and> status_AccountStatus (Account_Status (Account written)) = [])"
proof -
  have calls: "filter is_account_call
      (snd (snd (sync (account_world ''stored'') ''acme/issuer'' ((), [])))) = []"
    by (simp add: sync_stored_evaluated)
  have "status_URI (Account_Status (Account (AcmeCertIssuer issuer_stored))) \<noteq> []
      \<and> (\<exists>written.
         sync (account_world ''stored'') ''acme/issuer'' ((), []) =
           sync_write_back (account_world ''stored'') (issuer_cm ''stored'')
             (issuer_stored\<lparr>AcmeCertIssuer := written\<rparr>) ((), [])
         \<and> status_URI (Account_Status (Account written)) = []
         \<and> status_OrdersURL (Account_Status (Account written)) = []
         \<and> status_AccountStatus (Account_Status (Account written)) = []
         \<and> Contacts (Account written) = Contacts (Account (AcmeCertIssuer issuer_stored)))"
    by (rule sync_no_call_erases_status [where namespace = "''acme''"
          and certIssuerData = "''stored''" and secret = account_secret
          and privateKey = "''ACCOUNT KEY''", OF _ _ _ _ _ _ _ _ calls])
      (simp_all add: account_defs SplitMetaNamespaceKey_def map_index_ok_def)
  then show ?thesis
    by (auto simp add: sync_stored_evaluated issuer_stored_def issuer_erased_def)
qed

end
